theory Spec2Isabelle
  imports Complex_Main "HOL-Library.Sublist"
begin

section \<open>Data model\<close>

text \<open>
  The repository holds two versions of one program: \<^verbatim>\<open>src/src/main.js\<close> and
  \<^verbatim>\<open>src/unnamed/part_000\<close>. Both drive a camera between a wide pose and a sitting
  pose and toggle an overlay. Functions of \<^verbatim>\<open>main.js\<close> carry the suffix \<open>_main\<close>,
  those of \<^verbatim>\<open>part_000\<close> the suffix \<open>_part\<close>, where both files define the name.

  JavaScript numbers are idealised as reals. A \<^verbatim>\<open>THREE.Vector3\<close> (and the plain
  \<^verbatim>\<open>{x, y, z}\<close> objects of the configuration) is a \<open>vec3\<close>.
\<close>

datatype vec3 = Vec3 (vx: real) (vy: real) (vz: real)

text \<open>
  A node of the scene graph, as far as the program reads it: its reference identity
  (what \<^verbatim>\<open>===\<close> compares), its \<^verbatim>\<open>uuid\<close>, its \<^verbatim>\<open>name\<close> and \<^verbatim>\<open>isMesh\<close>.
\<close>

record object3d =
  obj_ref :: nat
  obj_uuid :: string
  obj_name :: string
  obj_isMesh :: bool

datatype axis = AxisX | AxisY | AxisZ

datatype tween_target = CameraPosition | ControlsTarget

datatype ease_id = Power2InOut | Power3InOut | Power3Out

text \<open>The closures the program passes as \<^verbatim>\<open>onUpdate\<close> and \<^verbatim>\<open>onComplete\<close>.\<close>

datatype on_update = LookAtPoint vec3 | LookAtControlsTarget

datatype on_complete = CallOpenOverlay | SetControlsEnabled

record tween =
  tw_target :: tween_target
  tw_props :: "(axis \<times> real \<times> real) list"
  tw_duration :: real
  tw_elapsed :: real
  tw_ease :: ease_id
  tw_onUpdate :: "on_update option"
  tw_onComplete :: "on_complete option"

datatype console_entry = ConsoleWarn string | ConsoleError string

text \<open>
  The module-level mutable state. \<open>camera_lookAt\<close> is the point last handed to
  \<^verbatim>\<open>camera.lookAt\<close> (the camera's orientation); \<open>overlay_hidden\<close> is membership of
  \<^verbatim>\<open>'hidden'\<close> in \<^verbatim>\<open>overlay.classList\<close>; \<open>iframe_focus_calls\<close> counts calls of
  \<^verbatim>\<open>iframe.focus()\<close>; \<open>tweens\<close> are the camera tweens the engine holds, oldest first.
\<close>

record app =
  camera_position :: vec3
  camera_lookAt :: vec3
  controls_enabled :: bool
  controls_target :: vec3
  overlay_hidden :: bool
  uiHint_shown :: bool
  iframe_focus_calls :: nat
  monitorMesh :: "object3d option"
  tweens :: "tween list"
  console :: "console_entry list"
  idleTime :: real
  last_now :: real

section \<open>The tween engine\<close>

text \<open>
  Modelled from the spec: the tween engine (the \<^verbatim>\<open>gsap\<close> package) is imported by
  both files and is not part of the sources. The spec's contract: given a mutable numeric
  target object, destination field values, a duration and an easing identifier, it animates
  the fields over time from their current values and invokes the per-step and on-completion
  callbacks; tweens run independently and concurrently, the per-step callback fires on every
  step, and the on-completion callback fires exactly once. Tweens are rendered oldest first,
  and a new tween does not cancel an older one on the same target (neither file asks the
  engine to overwrite).
\<close>

text \<open>
  Modelled from the spec: the ease curves the two files name, \<^verbatim>\<open>power2.inOut\<close>
  (cubic), \<^verbatim>\<open>power3.inOut\<close> and \<^verbatim>\<open>power3.out\<close> (quartic). Each starts at 0 and
  ends at 1.
\<close>

fun ease_ratio :: "ease_id \<Rightarrow> real \<Rightarrow> real" where
  "ease_ratio Power2InOut p = (if p < 1 / 2 then (2 * p) ^ 3 / 2 else 1 - (2 * (1 - p)) ^ 3 / 2)"
| "ease_ratio Power3InOut p = (if p < 1 / 2 then (2 * p) ^ 4 / 2 else 1 - (2 * (1 - p)) ^ 4 / 2)"
| "ease_ratio Power3Out p = 1 - (1 - p) ^ 4"

fun set_axis :: "axis \<Rightarrow> real \<Rightarrow> vec3 \<Rightarrow> vec3" where
  "set_axis AxisX r v = Vec3 r (vy v) (vz v)"
| "set_axis AxisY r v = Vec3 (vx v) r (vz v)"
| "set_axis AxisZ r v = Vec3 (vx v) (vy v) r"

fun read_target :: "tween_target \<Rightarrow> app \<Rightarrow> vec3" where
  "read_target CameraPosition s = camera_position s"
| "read_target ControlsTarget s = controls_target s"

fun write_target :: "tween_target \<Rightarrow> vec3 \<Rightarrow> app \<Rightarrow> app" where
  "write_target CameraPosition v s = s\<lparr>camera_position := v\<rparr>"
| "write_target ControlsTarget v s = s\<lparr>controls_target := v\<rparr>"

definition tween_progress :: "tween \<Rightarrow> real" where
  "tween_progress t = min 1 (tw_elapsed t / tw_duration t)"

definition tween_finished :: "tween \<Rightarrow> bool" where
  "tween_finished t = (tw_duration t \<le> tw_elapsed t)"

fun apply_props :: "real \<Rightarrow> (axis \<times> real \<times> real) list \<Rightarrow> vec3 \<Rightarrow> vec3" where
  "apply_props r [] v = v"
| "apply_props r ((a, b, e) # ps) v = apply_props r ps (set_axis a (b + (e - b) * r) v)"

fun run_onUpdate :: "on_update option \<Rightarrow> app \<Rightarrow> app" where
  "run_onUpdate None s = s"
| "run_onUpdate (Some (LookAtPoint p)) s = s\<lparr>camera_lookAt := p\<rparr>"
| "run_onUpdate (Some LookAtControlsTarget) s = s\<lparr>camera_lookAt := controls_target s\<rparr>"

fun run_onComplete :: "(app \<Rightarrow> app) \<Rightarrow> on_complete option \<Rightarrow> app \<Rightarrow> app" where
  "run_onComplete oo None s = s"
| "run_onComplete oo (Some CallOpenOverlay) s = oo s"
| "run_onComplete oo (Some SetControlsEnabled) s = s\<lparr>controls_enabled := True\<rparr>"

text \<open>
  Modelled from the spec: one step of one tween. It writes the eased values into the
  target, fires \<^verbatim>\<open>onUpdate\<close>, and on the last step fires \<^verbatim>\<open>onComplete\<close>. The
  parameter \<open>oo\<close> is the file's own \<^verbatim>\<open>openOverlay\<close>.
\<close>

definition render_tween :: "(app \<Rightarrow> app) \<Rightarrow> tween \<Rightarrow> app \<Rightarrow> app" where
  "render_tween oo t s =
     (let v = apply_props (ease_ratio (tw_ease t) (tween_progress t)) (tw_props t)
                (read_target (tw_target t) s);
          s1 = write_target (tw_target t) v s;
          s2 = run_onUpdate (tw_onUpdate t) s1
      in if tween_finished t then run_onComplete oo (tw_onComplete t) s2 else s2)"

definition advance :: "real \<Rightarrow> tween \<Rightarrow> tween" where
  "advance dt t = t\<lparr>tw_elapsed := tw_elapsed t + dt\<rparr>"

text \<open>
  Modelled from the spec: one tick of the engine's clock, \<open>dt\<close> seconds after the
  previous one. Every tween advances and is rendered; those that have run out are dropped.
\<close>

definition gsap_tick :: "(app \<Rightarrow> app) \<Rightarrow> real \<Rightarrow> app \<Rightarrow> app" where
  "gsap_tick oo dt s =
     (let ts = map (advance dt) (tweens s);
          s' = fold (render_tween oo) ts s
      in s'\<lparr>tweens := filter (\<lambda>t. \<not> tween_finished t) ts\<rparr>)"

text \<open>
  Modelled from the spec: the tween that animates the three fields of a target from
  \<open>a\<close> to \<open>b\<close>, \<open>el\<close> seconds into its run.
\<close>

definition tween_of ::
  "tween_target \<Rightarrow> vec3 \<Rightarrow> vec3 \<Rightarrow> real \<Rightarrow> real \<Rightarrow> ease_id \<Rightarrow> on_update option \<Rightarrow> on_complete option \<Rightarrow> tween"
where
  "tween_of tg a b dur el e onU onC =
     \<lparr>tw_target = tg,
       tw_props = [(AxisX, vx a, vx b), (AxisY, vy a, vy b), (AxisZ, vz a, vz b)],
       tw_duration = dur, tw_elapsed = el, tw_ease = e,
       tw_onUpdate = onU, tw_onComplete = onC\<rparr>"

text \<open>
  Modelled from the spec:
  \<^verbatim>\<open>gsap.to(target, {x, y, z, duration, ease, onUpdate, onComplete})\<close>, a new tween from
  the target's current values.
\<close>

definition gsap_to ::
  "tween_target \<Rightarrow> vec3 \<Rightarrow> real \<Rightarrow> ease_id \<Rightarrow> on_update option \<Rightarrow> on_complete option \<Rightarrow> app \<Rightarrow> app"
where
  "gsap_to tg dest dur e onU onC s =
     s\<lparr>tweens := tweens s @ [tween_of tg (read_target tg s) dest dur 0 e onU onC]\<rparr>"

text \<open>
  Modelled from the spec:
  \<^verbatim>\<open>gsap.from(camera.position, {y, duration, ease})\<close>, where the field jumps to the
  given value at once and is animated back to the value it had.
\<close>

definition gsap_from_y :: "real \<Rightarrow> real \<Rightarrow> ease_id \<Rightarrow> app \<Rightarrow> app" where
  "gsap_from_y y0 dur e s =
     (let cur = camera_position s
      in s\<lparr>camera_position := set_axis AxisY y0 cur,
           tweens := tweens s @
           [\<lparr>tw_target = CameraPosition, tw_props = [(AxisY, y0, vy cur)],
             tw_duration = dur, tw_elapsed = 0, tw_ease = e,
             tw_onUpdate = None, tw_onComplete = None\<rparr>]\<rparr>)"

text \<open>
  The orbit controls belong to the rendering library and are not in the sources. Their
  \<^verbatim>\<open>controls.update()\<close>, as far as the camera pose goes with no pointer drag in
  progress, turns the camera to look at \<^verbatim>\<open>controls.target\<close> and leaves its position
  alone (the poses of the configuration lie within the distance and angle limits the files
  set on the controls); drags themselves are not modelled.
\<close>

definition controls_update :: "app \<Rightarrow> app" where
  "controls_update s = s\<lparr>camera_lookAt := controls_target s\<rparr>"

section \<open>Strings\<close>

text \<open>\<^verbatim>\<open>String.prototype.toLowerCase\<close> on ASCII and \<^verbatim>\<open>String.prototype.includes\<close>.\<close>

definition lower_char :: "char \<Rightarrow> char" where
  "lower_char c =
     (let n = (of_char c :: nat) in if 65 \<le> n \<and> n \<le> 90 then char_of (n + 32) else c)"

definition toLowerCase :: "string \<Rightarrow> string" where
  "toLowerCase s = map lower_char s"

fun str_includes :: "string \<Rightarrow> string \<Rightarrow> bool" where
  "str_includes [] sub = (sub = [])"
| "str_includes (c # cs) sub = (prefix sub (c # cs) \<or> str_includes cs sub)"

fun getObjectByName :: "object3d list \<Rightarrow> string \<Rightarrow> object3d option" where
  "getObjectByName [] n = None"
| "getObjectByName (c # cs) n = (if obj_name c = n then Some c else getObjectByName cs n)"

section \<open>Configuration\<close>

definition WIDE_SHOT_POS_main :: vec3 where
  "WIDE_SHOT_POS_main = Vec3 8.5 23 (- 36)"

definition WIDE_SHOT_TARGET_main :: vec3 where
  "WIDE_SHOT_TARGET_main = Vec3 6.5 2.4 (- 2.2)"

definition WIDE_SHOT_POS_part :: vec3 where
  "WIDE_SHOT_POS_part = Vec3 11.97 19.59 (- 26.95)"

definition WIDE_SHOT_TARGET_part :: vec3 where
  "WIDE_SHOT_TARGET_part = Vec3 (- 0.95) 4.7 (- 2.39)"

text \<open>The sitting pose has the same coordinates in both files.\<close>

definition SIT_POS :: vec3 where
  "SIT_POS = Vec3 (- 3.4) 6.4 3.27"

definition SIT_TARGET :: vec3 where
  "SIT_TARGET = Vec3 (- 3.44) 6.16 4.22"

datatype event =
    PointerDown "object3d list"
  | CloseClick
  | KeyDown string
  | ControlsStart
  | GsapTick real
  | AnimationFrame real
  | LoadSuccess "object3d list"
  | LoadError string object3d

text \<open>
  The events the programs react to. The renderer, the lights and the conversion of pointer
  coordinates into a ray belong to the rendering library and are not modelled:
  \<open>PointerDown hits\<close> carries what \<^verbatim>\<open>raycaster.intersectObjects\<close> returns for the
  pointer position, nearest first. \<open>LoadSuccess nodes\<close> carries the nodes of the loaded
  scene in traversal order. \<open>LoadError err fresh\<close> carries the identity a mesh allocated
  by the handler would get. \<open>AnimationFrame now\<close> carries \<^verbatim>\<open>performance.now()\<close>.
\<close>

section \<open>The controller of main.js\<close>

text \<open>
  \<^verbatim>\<open>openOverlay\<close>, \<^verbatim>\<open>focusOnMonitor\<close>, \<^verbatim>\<open>onPointerDown\<close>, the click listener of
  the close button and the key listener, as \<^verbatim>\<open>main.js\<close> writes them (lines 175 to 263).
\<close>

definition openOverlay_main :: "app \<Rightarrow> app" where
  "openOverlay_main s =
     s\<lparr>overlay_hidden := False, uiHint_shown := False, controls_enabled := False,
       iframe_focus_calls := Suc (iframe_focus_calls s)\<rparr>"

definition focusOnMonitor :: "app \<Rightarrow> app" where
  "focusOnMonitor s =
     (case monitorMesh s of
        None \<Rightarrow> s
      | Some m \<Rightarrow>
          gsap_to CameraPosition SIT_POS 1.2 Power3InOut
            (Some (LookAtPoint SIT_TARGET)) (Some CallOpenOverlay)
            (s\<lparr>controls_enabled := False\<rparr>))"

text \<open>The condition of the inner \<^verbatim>\<open>if\<close> of \<^verbatim>\<open>onPointerDown\<close>.\<close>

definition is_interactive_main :: "object3d option \<Rightarrow> object3d \<Rightarrow> bool" where
  "is_interactive_main mm picked =
     (case mm of
        None \<Rightarrow> False
      | Some m \<Rightarrow>
          obj_ref picked = obj_ref m \<or> obj_uuid picked = obj_uuid m
          \<or> str_includes (toLowerCase (obj_name picked)) ''monitor''
          \<or> str_includes (toLowerCase (obj_name picked)) ''screen'')"

definition onPointerDown_main :: "object3d list \<Rightarrow> app \<Rightarrow> app" where
  "onPointerDown_main intersects s =
     (case intersects of
        [] \<Rightarrow> s
      | picked # rest \<Rightarrow>
          if is_interactive_main (monitorMesh s) picked then focusOnMonitor s else s)"

definition closeBtn_click_main :: "app \<Rightarrow> app" where
  "closeBtn_click_main s =
     gsap_to CameraPosition WIDE_SHOT_POS_main 1.0 Power3InOut
       (Some (LookAtPoint WIDE_SHOT_TARGET_main)) (Some SetControlsEnabled)
       (s\<lparr>overlay_hidden := True, uiHint_shown := True\<rparr>)"

definition keydown_main :: "string \<Rightarrow> app \<Rightarrow> app" where
  "keydown_main key s =
     (if key = ''Escape'' \<and> \<not> overlay_hidden s then closeBtn_click_main s else s)"

text \<open>
  The idle orbit and the frame callback (lines 267 to 301). \<open>now\<close> is what
  \<^verbatim>\<open>performance.now()\<close> returns inside the function. The frame callback computes
  \<open>dt\<close> and makes no use of it.
\<close>

definition updateControlsIdle :: "real \<Rightarrow> real \<Rightarrow> app \<Rightarrow> app" where
  "updateControlsIdle now dt s =
     (if \<not> controls_enabled s then s
      else
        let s1 = s\<lparr>idleTime := idleTime s + dt\<rparr>
        in if idleTime s1 > 1.5
           then
             let t = now * 0.00008;
                 p = camera_position s1
             in s1\<lparr>camera_position := Vec3 (sin t * 6) (vy p) (cos t * 6),
                   camera_lookAt := Vec3 0 1 0\<rparr>
           else s1)"

definition controls_start_main :: "app \<Rightarrow> app" where
  "controls_start_main s = s\<lparr>idleTime := 0\<rparr>"

definition animate_main :: "real \<Rightarrow> app \<Rightarrow> app" where
  "animate_main now s =
     (let dt = (now - last_now s) / 1000;
          s1 = s\<lparr>last_now := now\<rparr>
      in if controls_enabled s1 then controls_update s1 else s1)"

text \<open>
  The success callback of the loader. Shadow flags, materials and the pulsing tween on the
  colour of the screen's material do not touch the camera or the view and are left out.
  \<open>js_or\<close> is the \<^verbatim>\<open>||\<close> of two lookups. The console messages are written
  without the double quotes the source puts around the node's name.
\<close>

definition js_or :: "'a option \<Rightarrow> 'a option \<Rightarrow> 'a option" where
  "js_or a b = (case a of Some v \<Rightarrow> Some v | None \<Rightarrow> b)"

definition on_load_main :: "object3d list \<Rightarrow> app \<Rightarrow> app" where
  "on_load_main deskRoot s =
     (let s1 = s\<lparr>monitorMesh :=
                  js_or (getObjectByName deskRoot ''monitor_screen'')
                    (js_or (getObjectByName deskRoot ''monitor'')
                       (getObjectByName deskRoot ''screen''))\<rparr>;
          s2 = s1\<lparr>monitorMesh := getObjectByName deskRoot ''Screen_Plane_clickable''\<rparr>
      in if monitorMesh s2 = None
         then s2\<lparr>console := console s2 @
                [ConsoleError ''CRITICAL: Could not find object named Screen_Plane_clickable in the model!'']\<rparr>
         else s2)"

definition buildProceduralDesk :: "object3d \<Rightarrow> app \<Rightarrow> app" where
  "buildProceduralDesk fresh s =
     s\<lparr>monitorMesh := Some (fresh\<lparr>obj_name := ''monitor_screen'', obj_isMesh := True\<rparr>)\<rparr>"

definition on_load_error_main :: "string \<Rightarrow> object3d \<Rightarrow> app \<Rightarrow> app" where
  "on_load_error_main err fresh s =
     buildProceduralDesk fresh
       (s\<lparr>console := console s @
           [ConsoleWarn (''GLB load failed, building procedural desk instead. Error: '' @ err)]\<rparr>)"

text \<open>
  The state once the module body of \<^verbatim>\<open>main.js\<close> has run (\<open>t0\<close> is
  \<^verbatim>\<open>performance.now()\<close> then): the camera at the wide pose, the controls enabled, and
  the overlay hidden as the page ships it. A new camera looks down the negative z axis
  until the controls' first update turns it to their target.
\<close>

definition init_main :: "real \<Rightarrow> app" where
  "init_main t0 =
     animate_main t0
       (controls_update
         \<lparr>camera_position = WIDE_SHOT_POS_main,
           camera_lookAt = Vec3 (vx WIDE_SHOT_POS_main) (vy WIDE_SHOT_POS_main) (vz WIDE_SHOT_POS_main - 1),
           controls_enabled = True,
           controls_target = WIDE_SHOT_TARGET_main,
           overlay_hidden = True, uiHint_shown = True, iframe_focus_calls = 0,
           monitorMesh = None, tweens = [], console = [], idleTime = 0, last_now = t0\<rparr>)"

text \<open>The listeners \<^verbatim>\<open>main.js\<close> registers, by event.\<close>

fun step_main :: "event \<Rightarrow> app \<Rightarrow> app" where
  "step_main (PointerDown hits) s = onPointerDown_main hits s"
| "step_main CloseClick s = closeBtn_click_main s"
| "step_main (KeyDown key) s = keydown_main key s"
| "step_main ControlsStart s = controls_start_main s"
| "step_main (GsapTick dt) s = gsap_tick openOverlay_main dt s"
| "step_main (AnimationFrame now) s = animate_main now s"
| "step_main (LoadSuccess nodes) s = on_load_main nodes s"
| "step_main (LoadError err fresh) s = on_load_error_main err fresh s"

definition run_main :: "event list \<Rightarrow> app \<Rightarrow> app" where
  "run_main es s = fold step_main es s"

section \<open>The controller of part_000\<close>

text \<open>
  \<^verbatim>\<open>openOverlay\<close>, \<^verbatim>\<open>hideOverlay\<close>, \<^verbatim>\<open>moveToMonitor\<close>, \<^verbatim>\<open>returnToOffice\<close>,
  \<^verbatim>\<open>onPointerDown\<close> and \<^verbatim>\<open>animate\<close>, as \<^verbatim>\<open>part_000\<close> writes them (lines 165
  to 234).
\<close>

definition openOverlay_part :: "app \<Rightarrow> app" where
  "openOverlay_part s =
     s\<lparr>overlay_hidden := False, uiHint_shown := False,
       iframe_focus_calls := Suc (iframe_focus_calls s)\<rparr>"

definition hideOverlay :: "app \<Rightarrow> app" where
  "hideOverlay s = s\<lparr>overlay_hidden := True, uiHint_shown := True\<rparr>"

definition moveToMonitor :: "app \<Rightarrow> app" where
  "moveToMonitor s =
     gsap_to ControlsTarget SIT_TARGET 1.5 Power2InOut
       (Some LookAtControlsTarget) (Some CallOpenOverlay)
       (gsap_to CameraPosition SIT_POS 1.5 Power2InOut None None
          (s\<lparr>controls_enabled := False\<rparr>))"

definition returnToOffice :: "app \<Rightarrow> app" where
  "returnToOffice s =
     gsap_to ControlsTarget WIDE_SHOT_TARGET_part 1.5 Power2InOut
       (Some LookAtControlsTarget) (Some SetControlsEnabled)
       (gsap_to CameraPosition WIDE_SHOT_POS_part 1.5 Power2InOut None None
          (hideOverlay s))"

text \<open>The condition of the inner \<^verbatim>\<open>if\<close> of \<^verbatim>\<open>onPointerDown\<close>.\<close>

definition is_interactive_part :: "object3d option \<Rightarrow> object3d \<Rightarrow> bool" where
  "is_interactive_part mm object =
     ((case mm of None \<Rightarrow> False | Some m \<Rightarrow> obj_ref object = obj_ref m)
      \<or> str_includes (obj_name object) ''Desk''
      \<or> str_includes (obj_name object) ''Screen'')"

definition onPointerDown_part :: "object3d list \<Rightarrow> app \<Rightarrow> app" where
  "onPointerDown_part intersects s =
     (if \<not> controls_enabled s then s
      else
        case intersects of
          [] \<Rightarrow> s
        | object # rest \<Rightarrow>
            if is_interactive_part (monitorMesh s) object then moveToMonitor s else s)"

definition animate_part :: "app \<Rightarrow> app" where
  "animate_part s = controls_update s"

text \<open>
  The success callback of the loader; materials and lights are left out. The traversal of
  the loaded scene: the last mesh whose name includes
  \<^verbatim>\<open>Monitor_Screen\<close> becomes \<^verbatim>\<open>monitorMesh\<close>, the last node whose name includes
  \<^verbatim>\<open>Target_Desk\<close> becomes \<^verbatim>\<open>targetDeskAnchor\<close> (the second component).
\<close>

fun traverse_part :: "object3d list \<Rightarrow> object3d option \<times> object3d option \<Rightarrow> object3d option \<times> object3d option" where
  "traverse_part [] acc = acc"
| "traverse_part (child # cs) (mm, anchor) =
     traverse_part cs
       (if obj_isMesh child \<and> str_includes (obj_name child) ''Monitor_Screen'' then Some child else mm,
        if str_includes (obj_name child) ''Target_Desk'' then Some child else anchor)"

definition on_load_part :: "object3d list \<Rightarrow> app \<Rightarrow> app" where
  "on_load_part deskRoot s =
     (let (mm, targetDeskAnchor) = traverse_part deskRoot (monitorMesh s, None);
          s1 = s\<lparr>monitorMesh := mm\<rparr>;
          s2 = (if targetDeskAnchor = None
                then s1\<lparr>console := console s1 @
                       [ConsoleWarn ''Could not find 'Target_Desk'. Check Blender naming!'']\<rparr>
                else s1)
      in gsap_from_y 50 2 Power3Out s2)"

definition on_load_error_part :: "string \<Rightarrow> app \<Rightarrow> app" where
  "on_load_error_part err s =
     s\<lparr>console := console s @ [ConsoleError (''An error happened '' @ err)]\<rparr>"

definition init_part :: app where
  "init_part =
     animate_part
       \<lparr>camera_position = WIDE_SHOT_POS_part,
         camera_lookAt = Vec3 (vx WIDE_SHOT_POS_part) (vy WIDE_SHOT_POS_part) (vz WIDE_SHOT_POS_part - 1),
         controls_enabled = True,
         controls_target = WIDE_SHOT_TARGET_part,
         overlay_hidden = True, uiHint_shown = True, iframe_focus_calls = 0,
         monitorMesh = None, tweens = [], console = [], idleTime = 0, last_now = 0\<rparr>"

text \<open>
  The listeners \<^verbatim>\<open>part_000\<close> registers, by event. It registers none for key presses
  and none on the controls, and it has no idle timer.
\<close>

fun step_part :: "event \<Rightarrow> app \<Rightarrow> app" where
  "step_part (PointerDown hits) s = onPointerDown_part hits s"
| "step_part CloseClick s = returnToOffice s"
| "step_part (KeyDown key) s = s"
| "step_part ControlsStart s = s"
| "step_part (GsapTick dt) s = gsap_tick openOverlay_part dt s"
| "step_part (AnimationFrame now) s = animate_part s"
| "step_part (LoadSuccess nodes) s = on_load_part nodes s"
| "step_part (LoadError err fresh) s = on_load_error_part err s"

definition run_part :: "event list \<Rightarrow> app \<Rightarrow> app" where
  "run_part es s = fold step_part es s"

section \<open>The view state\<close>

text \<open>
  Neither file stores the spec's ViewState; it is read off the program state. A transition
  is in flight while the engine holds a tween that carries a completion callback (the
  fly-in carries \<^verbatim>\<open>openOverlay\<close>, the fly-out the re-enabling of the controls). With
  no transition in flight the view is focused when the overlay is shown and orbiting
  otherwise.
\<close>

datatype view_state = ORBITING | TRANSITIONING | FOCUSED

definition transitions :: "app \<Rightarrow> tween list" where
  "transitions s = filter (\<lambda>t. tw_onComplete t \<noteq> None) (tweens s)"

definition view_state_of :: "app \<Rightarrow> view_state" where
  "view_state_of s =
     (if transitions s \<noteq> [] then TRANSITIONING
      else if overlay_hidden s then ORBITING else FOCUSED)"

text \<open>The point a fraction \<open>r\<close> of the way from \<open>a\<close> to \<open>b\<close>.\<close>

definition lerp :: "vec3 \<Rightarrow> vec3 \<Rightarrow> real \<Rightarrow> vec3" where
  "lerp a b r =
     Vec3 (vx a + (vx b - vx a) * r) (vy a + (vy b - vy a) * r) (vz a + (vz b - vz a) * r)"

section \<open>Transitions in progress\<close>

text \<open>
  What holds \<open>T\<close> seconds into each of the four camera flights when nothing but the
  flight's own tweens is in the engine: \<open>a\<close> and \<open>b\<close> are the camera position and the
  controls' target at the start, \<open>k\<close> tells whether a step has been rendered.
\<close>

definition main_in_inv :: "vec3 \<Rightarrow> vec3 \<Rightarrow> bool \<Rightarrow> nat \<Rightarrow> bool \<Rightarrow> real \<Rightarrow> app \<Rightarrow> bool" where
  "main_in_inv a b h n k T s =
     (camera_position s = lerp a SIT_POS (ease_ratio Power3InOut (min 1 (T / 1.2)))
      \<and> controls_target s = b
      \<and> (k \<longrightarrow> camera_lookAt s = SIT_TARGET)
      \<and> \<not> controls_enabled s
      \<and> overlay_hidden s = (if 1.2 \<le> T then False else h)
      \<and> iframe_focus_calls s = (if 1.2 \<le> T then Suc n else n)
      \<and> tweens s =
          (if 1.2 \<le> T then []
           else [tween_of CameraPosition a SIT_POS 1.2 T Power3InOut
                   (Some (LookAtPoint SIT_TARGET)) (Some CallOpenOverlay)]))"

definition main_out_inv :: "vec3 \<Rightarrow> vec3 \<Rightarrow> bool \<Rightarrow> bool \<Rightarrow> real \<Rightarrow> app \<Rightarrow> bool" where
  "main_out_inv a b c k T s =
     (camera_position s = lerp a WIDE_SHOT_POS_main (ease_ratio Power3InOut (min 1 (T / 1.0)))
      \<and> controls_target s = b
      \<and> (k \<longrightarrow> camera_lookAt s = WIDE_SHOT_TARGET_main)
      \<and> overlay_hidden s
      \<and> controls_enabled s = (if 1.0 \<le> T then True else c)
      \<and> tweens s =
          (if 1.0 \<le> T then []
           else [tween_of CameraPosition a WIDE_SHOT_POS_main 1.0 T Power3InOut
                   (Some (LookAtPoint WIDE_SHOT_TARGET_main)) (Some SetControlsEnabled)]))"

definition part_in_inv :: "vec3 \<Rightarrow> vec3 \<Rightarrow> bool \<Rightarrow> nat \<Rightarrow> bool \<Rightarrow> real \<Rightarrow> app \<Rightarrow> bool" where
  "part_in_inv a b h n k T s =
     (camera_position s = lerp a SIT_POS (ease_ratio Power2InOut (min 1 (T / 1.5)))
      \<and> controls_target s = lerp b SIT_TARGET (ease_ratio Power2InOut (min 1 (T / 1.5)))
      \<and> (k \<longrightarrow> camera_lookAt s = controls_target s)
      \<and> \<not> controls_enabled s
      \<and> overlay_hidden s = (if 1.5 \<le> T then False else h)
      \<and> iframe_focus_calls s = (if 1.5 \<le> T then Suc n else n)
      \<and> tweens s =
          (if 1.5 \<le> T then []
           else [tween_of CameraPosition a SIT_POS 1.5 T Power2InOut None None,
                 tween_of ControlsTarget b SIT_TARGET 1.5 T Power2InOut
                   (Some LookAtControlsTarget) (Some CallOpenOverlay)]))"

definition part_out_inv :: "vec3 \<Rightarrow> vec3 \<Rightarrow> bool \<Rightarrow> bool \<Rightarrow> real \<Rightarrow> app \<Rightarrow> bool" where
  "part_out_inv a b c k T s =
     (camera_position s = lerp a WIDE_SHOT_POS_part (ease_ratio Power2InOut (min 1 (T / 1.5)))
      \<and> controls_target s = lerp b WIDE_SHOT_TARGET_part (ease_ratio Power2InOut (min 1 (T / 1.5)))
      \<and> (k \<longrightarrow> camera_lookAt s = controls_target s)
      \<and> overlay_hidden s
      \<and> controls_enabled s = (if 1.5 \<le> T then True else c)
      \<and> tweens s =
          (if 1.5 \<le> T then []
           else [tween_of CameraPosition a WIDE_SHOT_POS_part 1.5 T Power2InOut None None,
                 tween_of ControlsTarget b WIDE_SHOT_TARGET_part 1.5 T Power2InOut
                   (Some LookAtControlsTarget) (Some SetControlsEnabled)]))"

section \<open>Runs of a transition\<close>

text \<open>
  While a transition runs, the engine's ticks and the frame callback alternate. The time
  a run of events lets pass is the sum of its ticks.
\<close>

fun quiet :: "event \<Rightarrow> bool" where
  "quiet (GsapTick dt) = (0 \<le> dt)"
| "quiet (AnimationFrame now) = True"
| "quiet e = False"

fun is_tick :: "event \<Rightarrow> bool" where
  "is_tick (GsapTick dt) = True"
| "is_tick e = False"

fun tick_time :: "event \<Rightarrow> real" where
  "tick_time (GsapTick dt) = dt"
| "tick_time e = 0"

definition elapsed :: "event list \<Rightarrow> real" where
  "elapsed es = sum_list (map tick_time es)"

section \<open>Sample runs\<close>

text \<open>
  A loaded scene for each file, holding the node the file looks for, and the state each
  program is in once the scene has loaded (and, for \<^verbatim>\<open>part_000\<close>, its two-second intro
  animation has played).
\<close>

definition screen_plane :: object3d where
  "screen_plane =
     \<lparr>obj_ref = 1, obj_uuid = ''uuid-1'', obj_name = ''Screen_Plane_clickable'', obj_isMesh = True\<rparr>"

definition monitor_stand :: object3d where
  "monitor_stand =
     \<lparr>obj_ref = 2, obj_uuid = ''uuid-2'', obj_name = ''Monitor_Stand'', obj_isMesh = True\<rparr>"

definition monitor_screen :: object3d where
  "monitor_screen =
     \<lparr>obj_ref = 3, obj_uuid = ''uuid-3'', obj_name = ''Monitor_Screen'', obj_isMesh = True\<rparr>"

definition target_desk :: object3d where
  "target_desk =
     \<lparr>obj_ref = 4, obj_uuid = ''uuid-4'', obj_name = ''Target_Desk'', obj_isMesh = False\<rparr>"

definition wall :: object3d where
  "wall = \<lparr>obj_ref = 5, obj_uuid = ''uuid-5'', obj_name = ''Wall'', obj_isMesh = True\<rparr>"

definition procedural_screen :: object3d where
  "procedural_screen =
     \<lparr>obj_ref = 6, obj_uuid = ''uuid-6'', obj_name = ''monitor_screen'', obj_isMesh = True\<rparr>"

definition main_ready :: app where
  "main_ready = run_main [LoadSuccess [screen_plane, monitor_stand, wall]] (init_main 0)"

definition part_ready :: app where
  "part_ready = run_part [LoadSuccess [monitor_screen, target_desk, wall], GsapTick 2] init_part"

text \<open>
  The two programs after a click on the monitor and a completed fly-in, and
  \<^verbatim>\<open>main.js\<close> half a second into its fly-in.
\<close>

definition main_focused :: app where
  "main_focused = run_main [PointerDown [screen_plane], GsapTick 1.2] main_ready"

definition main_flying :: app where
  "main_flying = run_main [PointerDown [screen_plane], GsapTick 0.5] main_ready"

definition part_focused :: app where
  "part_focused = run_part [PointerDown [monitor_screen], GsapTick 1.5] part_ready"

section \<open>Runs before the scene is resolved\<close>

fun is_load :: "event \<Rightarrow> bool" where
  "is_load (LoadSuccess nodes) = True"
| "is_load (LoadError err fresh) = True"
| "is_load e = False"

text \<open>
  \<^verbatim>\<open>monitorMesh\<close> is unresolved, the overlay is hidden and no tween in the engine
  carries \<^verbatim>\<open>openOverlay\<close> as its completion callback.
\<close>

definition unresolved_shut :: "app \<Rightarrow> bool" where
  "unresolved_shut s =
     (monitorMesh s = None \<and> overlay_hidden s
      \<and> list_all (\<lambda>t. tw_onComplete t \<noteq> Some CallOpenOverlay) (tweens s))"

section \<open>Consistency of the view in part_000\<close>

text \<open>
  The close button is a child of the overlay: a click reaches it only while the overlay is
  shown. Every other event can arrive in any state.
\<close>

fun deliverable :: "event \<Rightarrow> app \<Rightarrow> bool" where
  "deliverable CloseClick s = (\<not> overlay_hidden s)"
| "deliverable e s = True"

fun deliverable_part :: "event list \<Rightarrow> app \<Rightarrow> bool" where
  "deliverable_part [] s = True"
| "deliverable_part (e # es) s = (deliverable e s \<and> deliverable_part es (step_part e s))"

text \<open>
  No tween in the engine has run out, and either no transition is in flight and the
  controls are enabled exactly when the overlay is hidden, or one transition is in flight
  with the controls disabled and the overlay hidden.
\<close>

definition part_consistent :: "app \<Rightarrow> bool" where
  "part_consistent s =
     (list_all (\<lambda>t. \<not> tween_finished t) (tweens s)
      \<and> (case transitions s of
            [] \<Rightarrow> controls_enabled s = overlay_hidden s
          | [t] \<Rightarrow> \<not> controls_enabled s \<and> overlay_hidden s
          | t # t' # ts \<Rightarrow> False))"

section \<open>The tween engine: basic facts\<close>

lemma lerp_0: "lerp a b 0 = a"
  by (simp add: lerp_def)

lemma lerp_1: "lerp a b 1 = b"
  by (simp add: lerp_def)

lemma ease_ratio_1: "ease_ratio e 1 = 1"
  by (cases e) simp_all

lemma gsap_tick_idle: "tweens s = [] \<Longrightarrow> gsap_tick oo dt s = s"
  by (simp add: gsap_tick_def)

lemma apply_props_lerp:
  "apply_props r [(AxisX, vx a, vx b), (AxisY, vy a, vy b), (AxisZ, vz a, vz b)] v = lerp a b r"
  by (simp add: lerp_def)

lemma render_tween_of:
  "render_tween oo (tween_of tg a b d el e u c) s =
     (let s2 = run_onUpdate u (write_target tg (lerp a b (ease_ratio e (min 1 (el / d)))) s)
      in if d \<le> el then run_onComplete oo c s2 else s2)"
  by (simp add: render_tween_def tween_of_def tween_progress_def tween_finished_def
      apply_props_lerp Let_def del: apply_props.simps)

lemma advance_tween_of:
  "advance dt (tween_of tg a b d el e u c) = tween_of tg a b d (el + dt) e u c"
  by (simp add: advance_def tween_of_def)

lemma finished_tween_of: "tween_finished (tween_of tg a b d el e u c) = (d \<le> el)"
  by (simp add: tween_finished_def tween_of_def)

lemmas tick_simps = gsap_tick_def advance_tween_of render_tween_of finished_tween_of
  lerp_1 ease_ratio_1 Let_def

lemma elapsed_simps:
  "elapsed [] = 0"
  "elapsed (e # es) = tick_time e + elapsed es"
  by (simp_all add: elapsed_def)

lemma elapsed_ticks:
  "elapsed (map GsapTick dts) = sum_list dts"
  "list_all quiet (map GsapTick dts) = (\<forall>dt\<in>set dts. 0 \<le> dt)"
  "list_ex is_tick (map GsapTick dts) = (dts \<noteq> [])"
  by (induction dts) (auto simp add: elapsed_simps)

text \<open>
  A flight described by \<open>inv\<close> that lasts \<open>d\<close> seconds: if a tick before the end keeps
  the description and has rendered a step, ticks after the end change nothing, and a frame
  keeps the description, then the description holds after any run of ticks and frames.
\<close>

lemma run_flight:
  fixes step :: "event \<Rightarrow> app \<Rightarrow> app" and inv :: "bool \<Rightarrow> real \<Rightarrow> app \<Rightarrow> bool" and d :: real
  assumes tick: "\<And>k T dt s. inv k T s \<Longrightarrow> T < d \<Longrightarrow> 0 \<le> dt \<Longrightarrow> inv True (T + dt) (step (GsapTick dt) s)"
      and stay: "\<And>k T dt s. inv k T s \<Longrightarrow> d \<le> T \<Longrightarrow> step (GsapTick dt) s = s"
      and mono: "\<And>k T T' s. inv k T s \<Longrightarrow> d \<le> T \<Longrightarrow> T \<le> T' \<Longrightarrow> inv k T' s"
      and frame: "\<And>k T now s. inv k T s \<Longrightarrow> inv k T (step (AnimationFrame now) s)"
      and start: "inv k T s" and run: "list_all quiet es"
  shows "inv (k \<or> T < d \<and> list_ex is_tick es) (T + elapsed es) (fold step es s)"
  using start run
proof (induction es arbitrary: k T s)
  case Nil
  then show ?case by (simp add: elapsed_simps)
next
  case (Cons e es)
  from Cons.prems(2) have q: "quiet e" and rest: "list_all quiet es" by simp_all
  show ?case
  proof (cases e)
    case (GsapTick dt)
    with q have dt: "0 \<le> dt" by simp
    show ?thesis
    proof (cases "T < d")
      case True
      from tick[OF Cons.prems(1) True dt] have "inv True (T + dt) (step (GsapTick dt) s)" .
      from Cons.IH[OF this rest] True show ?thesis
        by (simp add: GsapTick elapsed_simps add.assoc)
    next
      case False
      then have late: "d \<le> T" by simp
      with stay[OF Cons.prems(1)] have same: "step (GsapTick dt) s = s" by simp
      from mono[OF Cons.prems(1) late, of "T + dt"] dt have "inv k (T + dt) s" by simp
      from Cons.IH[OF this rest] same late dt show ?thesis
        by (simp add: GsapTick elapsed_simps add.assoc)
    qed
  next
    case (AnimationFrame now)
    from frame[OF Cons.prems(1)] have "inv k T (step (AnimationFrame now) s)" .
    from Cons.IH[OF this rest] show ?thesis
      by (simp add: AnimationFrame elapsed_simps)
  qed (use q in simp_all)
qed

section \<open>The fly-in of main.js\<close>

lemma main_in_tick:
  "main_in_inv a b h n k T s \<Longrightarrow> T < 1.2 \<Longrightarrow> 0 \<le> dt \<Longrightarrow>
     main_in_inv a b h n True (T + dt) (gsap_tick openOverlay_main dt s)"
  by (simp add: main_in_inv_def tick_simps openOverlay_main_def min_def del: ease_ratio.simps)

lemma main_in_stay: "main_in_inv a b h n k T s \<Longrightarrow> 1.2 \<le> T \<Longrightarrow> gsap_tick oo dt s = s"
  by (simp add: main_in_inv_def gsap_tick_idle)

lemma main_in_mono:
  "main_in_inv a b h n k T s \<Longrightarrow> 1.2 \<le> T \<Longrightarrow> T \<le> T' \<Longrightarrow> main_in_inv a b h n k T' s"
  by (simp add: main_in_inv_def min_def)

lemma main_in_frame:
  "main_in_inv a b h n k T s \<Longrightarrow> main_in_inv a b h n k T (step_main (AnimationFrame now) s)"
  by (simp add: main_in_inv_def animate_main_def Let_def del: ease_ratio.simps)

lemma main_in_start:
  "tweens s = [] \<Longrightarrow> monitorMesh s \<noteq> None \<Longrightarrow>
     main_in_inv (camera_position s) (controls_target s) (overlay_hidden s) (iframe_focus_calls s) False 0 (focusOnMonitor s)"
  by (auto simp add: main_in_inv_def focusOnMonitor_def gsap_to_def lerp_0)

lemma main_in_run:
  assumes "main_in_inv a b h n k T s" and "list_all quiet es"
  shows "main_in_inv a b h n (k \<or> T < 1.2 \<and> list_ex is_tick es) (T + elapsed es) (run_main es s)"
  unfolding run_main_def
proof (rule run_flight[where inv = "main_in_inv a b h n" and d = "1.2" and step = step_main])
  fix k :: bool and T dt :: real and s :: app
  assume "main_in_inv a b h n k T s" "T < 1.2" "0 \<le> dt"
  then show "main_in_inv a b h n True (T + dt) (step_main (GsapTick dt) s)"
    by (simp add: main_in_tick)
next
  fix k :: bool and T dt :: real and s :: app
  assume "main_in_inv a b h n k T s" "1.2 \<le> T"
  then show "step_main (GsapTick dt) s = s"
    by (simp add: main_in_stay)
next
  fix k :: bool and T T' :: real and s :: app
  assume "main_in_inv a b h n k T s" "1.2 \<le> T" "T \<le> T'"
  then show "main_in_inv a b h n k T' s" by (rule main_in_mono)
next
  fix k :: bool and T now :: real and s :: app
  assume "main_in_inv a b h n k T s"
  then show "main_in_inv a b h n k T (step_main (AnimationFrame now) s)" by (rule main_in_frame)
qed (use assms in simp_all)

section \<open>The fly-out of main.js\<close>

lemma main_out_tick:
  "main_out_inv a WIDE_SHOT_TARGET_main c k T s \<Longrightarrow> T < 1.0 \<Longrightarrow> 0 \<le> dt \<Longrightarrow>
     main_out_inv a WIDE_SHOT_TARGET_main c True (T + dt) (gsap_tick openOverlay_main dt s)"
  by (simp add: main_out_inv_def tick_simps min_def del: ease_ratio.simps)

lemma main_out_stay: "main_out_inv a WIDE_SHOT_TARGET_main c k T s \<Longrightarrow> 1.0 \<le> T \<Longrightarrow> gsap_tick oo dt s = s"
  by (simp add: main_out_inv_def gsap_tick_idle)

lemma main_out_mono:
  "main_out_inv a WIDE_SHOT_TARGET_main c k T s \<Longrightarrow> 1.0 \<le> T \<Longrightarrow> T \<le> T' \<Longrightarrow> main_out_inv a WIDE_SHOT_TARGET_main c k T' s"
  by (simp add: main_out_inv_def min_def)

lemma main_out_frame:
  "main_out_inv a WIDE_SHOT_TARGET_main c k T s \<Longrightarrow>
     main_out_inv a WIDE_SHOT_TARGET_main c k T (step_main (AnimationFrame now) s)"
  by (simp add: main_out_inv_def animate_main_def controls_update_def Let_def del: ease_ratio.simps)

lemma main_out_start:
  "tweens s = [] \<Longrightarrow> controls_target s = WIDE_SHOT_TARGET_main \<Longrightarrow>
     main_out_inv (camera_position s) WIDE_SHOT_TARGET_main (controls_enabled s) False 0 (closeBtn_click_main s)"
  by (auto simp add: main_out_inv_def closeBtn_click_main_def gsap_to_def lerp_0)

lemma main_out_run:
  assumes "main_out_inv a WIDE_SHOT_TARGET_main c k T s" and "list_all quiet es"
  shows "main_out_inv a WIDE_SHOT_TARGET_main c (k \<or> T < 1.0 \<and> list_ex is_tick es) (T + elapsed es) (run_main es s)"
  unfolding run_main_def
proof (rule run_flight[where inv = "main_out_inv a WIDE_SHOT_TARGET_main c" and d = "1.0" and step = step_main])
  fix k :: bool and T dt :: real and s :: app
  assume "main_out_inv a WIDE_SHOT_TARGET_main c k T s" "T < 1.0" "0 \<le> dt"
  then show "main_out_inv a WIDE_SHOT_TARGET_main c True (T + dt) (step_main (GsapTick dt) s)"
    by (simp add: main_out_tick)
next
  fix k :: bool and T dt :: real and s :: app
  assume "main_out_inv a WIDE_SHOT_TARGET_main c k T s" "1.0 \<le> T"
  then show "step_main (GsapTick dt) s = s"
    by (simp add: main_out_stay)
next
  fix k :: bool and T T' :: real and s :: app
  assume "main_out_inv a WIDE_SHOT_TARGET_main c k T s" "1.0 \<le> T" "T \<le> T'"
  then show "main_out_inv a WIDE_SHOT_TARGET_main c k T' s" by (rule main_out_mono)
next
  fix k :: bool and T now :: real and s :: app
  assume "main_out_inv a WIDE_SHOT_TARGET_main c k T s"
  then show "main_out_inv a WIDE_SHOT_TARGET_main c k T (step_main (AnimationFrame now) s)" by (rule main_out_frame)
qed (use assms in simp_all)

section \<open>The fly-in of part_000\<close>

lemma part_in_tick:
  "part_in_inv a b h n k T s \<Longrightarrow> T < 1.5 \<Longrightarrow> 0 \<le> dt \<Longrightarrow>
     part_in_inv a b h n True (T + dt) (gsap_tick openOverlay_part dt s)"
  by (simp add: part_in_inv_def tick_simps openOverlay_part_def min_def del: ease_ratio.simps)

lemma part_in_stay: "part_in_inv a b h n k T s \<Longrightarrow> 1.5 \<le> T \<Longrightarrow> gsap_tick oo dt s = s"
  by (simp add: part_in_inv_def gsap_tick_idle)

lemma part_in_mono:
  "part_in_inv a b h n k T s \<Longrightarrow> 1.5 \<le> T \<Longrightarrow> T \<le> T' \<Longrightarrow> part_in_inv a b h n k T' s"
  by (simp add: part_in_inv_def min_def)

lemma part_in_frame:
  "part_in_inv a b h n k T s \<Longrightarrow> part_in_inv a b h n k T (step_part (AnimationFrame now) s)"
  by (simp add: part_in_inv_def animate_part_def controls_update_def del: ease_ratio.simps)

lemma part_in_start:
  "tweens s = [] \<Longrightarrow>
     part_in_inv (camera_position s) (controls_target s) (overlay_hidden s) (iframe_focus_calls s) False 0 (moveToMonitor s)"
  by (auto simp add: part_in_inv_def moveToMonitor_def gsap_to_def lerp_0)

lemma part_in_run:
  assumes "part_in_inv a b h n k T s" and "list_all quiet es"
  shows "part_in_inv a b h n (k \<or> T < 1.5 \<and> list_ex is_tick es) (T + elapsed es) (run_part es s)"
  unfolding run_part_def
proof (rule run_flight[where inv = "part_in_inv a b h n" and d = "1.5" and step = step_part])
  fix k :: bool and T dt :: real and s :: app
  assume "part_in_inv a b h n k T s" "T < 1.5" "0 \<le> dt"
  then show "part_in_inv a b h n True (T + dt) (step_part (GsapTick dt) s)"
    by (simp add: part_in_tick)
next
  fix k :: bool and T dt :: real and s :: app
  assume "part_in_inv a b h n k T s" "1.5 \<le> T"
  then show "step_part (GsapTick dt) s = s"
    by (simp add: part_in_stay)
next
  fix k :: bool and T T' :: real and s :: app
  assume "part_in_inv a b h n k T s" "1.5 \<le> T" "T \<le> T'"
  then show "part_in_inv a b h n k T' s" by (rule part_in_mono)
next
  fix k :: bool and T now :: real and s :: app
  assume "part_in_inv a b h n k T s"
  then show "part_in_inv a b h n k T (step_part (AnimationFrame now) s)" by (rule part_in_frame)
qed (use assms in simp_all)

section \<open>The fly-out of part_000\<close>

lemma part_out_tick:
  "part_out_inv a b c k T s \<Longrightarrow> T < 1.5 \<Longrightarrow> 0 \<le> dt \<Longrightarrow>
     part_out_inv a b c True (T + dt) (gsap_tick openOverlay_part dt s)"
  by (simp add: part_out_inv_def tick_simps min_def del: ease_ratio.simps)

lemma part_out_stay: "part_out_inv a b c k T s \<Longrightarrow> 1.5 \<le> T \<Longrightarrow> gsap_tick oo dt s = s"
  by (simp add: part_out_inv_def gsap_tick_idle)

lemma part_out_mono:
  "part_out_inv a b c k T s \<Longrightarrow> 1.5 \<le> T \<Longrightarrow> T \<le> T' \<Longrightarrow> part_out_inv a b c k T' s"
  by (simp add: part_out_inv_def min_def)

lemma part_out_frame:
  "part_out_inv a b c k T s \<Longrightarrow> part_out_inv a b c k T (step_part (AnimationFrame now) s)"
  by (simp add: part_out_inv_def animate_part_def controls_update_def del: ease_ratio.simps)

lemma part_out_start:
  "tweens s = [] \<Longrightarrow>
     part_out_inv (camera_position s) (controls_target s) (controls_enabled s) False 0 (returnToOffice s)"
  by (auto simp add: part_out_inv_def returnToOffice_def hideOverlay_def gsap_to_def lerp_0)

lemma part_out_run:
  assumes "part_out_inv a b c k T s" and "list_all quiet es"
  shows "part_out_inv a b c (k \<or> T < 1.5 \<and> list_ex is_tick es) (T + elapsed es) (run_part es s)"
  unfolding run_part_def
proof (rule run_flight[where inv = "part_out_inv a b c" and d = "1.5" and step = step_part])
  fix k :: bool and T dt :: real and s :: app
  assume "part_out_inv a b c k T s" "T < 1.5" "0 \<le> dt"
  then show "part_out_inv a b c True (T + dt) (step_part (GsapTick dt) s)"
    by (simp add: part_out_tick)
next
  fix k :: bool and T dt :: real and s :: app
  assume "part_out_inv a b c k T s" "1.5 \<le> T"
  then show "step_part (GsapTick dt) s = s"
    by (simp add: part_out_stay)
next
  fix k :: bool and T T' :: real and s :: app
  assume "part_out_inv a b c k T s" "1.5 \<le> T" "T \<le> T'"
  then show "part_out_inv a b c k T' s" by (rule part_out_mono)
next
  fix k :: bool and T now :: real and s :: app
  assume "part_out_inv a b c k T s"
  then show "part_out_inv a b c k T (step_part (AnimationFrame now) s)" by (rule part_out_frame)
qed (use assms in simp_all)

section \<open>Whole flights\<close>

lemma main_in_flight:
  assumes "tweens s = []" and "monitorMesh s \<noteq> None" and "list_all quiet es"
  shows "main_in_inv (camera_position s) (controls_target s) (overlay_hidden s)
           (iframe_focus_calls s) (list_ex is_tick es) (elapsed es) (run_main es (focusOnMonitor s))"
  using main_in_run[OF main_in_start[OF assms(1,2)] assms(3)] by simp

lemma main_out_flight:
  assumes "tweens s = []" and "controls_target s = WIDE_SHOT_TARGET_main" and "list_all quiet es"
  shows "main_out_inv (camera_position s) WIDE_SHOT_TARGET_main (controls_enabled s)
           (list_ex is_tick es) (elapsed es) (run_main es (closeBtn_click_main s))"
  using main_out_run[OF main_out_start[OF assms(1,2)] assms(3)] by simp

lemma part_in_flight:
  assumes "tweens s = []" and "list_all quiet es"
  shows "part_in_inv (camera_position s) (controls_target s) (overlay_hidden s)
           (iframe_focus_calls s) (list_ex is_tick es) (elapsed es) (run_part es (moveToMonitor s))"
  using part_in_run[OF part_in_start[OF assms(1)] assms(2)] by simp

lemma part_out_flight:
  assumes "tweens s = []" and "list_all quiet es"
  shows "part_out_inv (camera_position s) (controls_target s) (controls_enabled s)
           (list_ex is_tick es) (elapsed es) (run_part es (returnToOffice s))"
  using part_out_run[OF part_out_start[OF assms(1)] assms(2)] by simp

lemma elapsed_pos_tick: "0 < elapsed es \<Longrightarrow> list_ex is_tick es"
proof (induction es)
  case Nil
  then show ?case by (simp add: elapsed_simps)
next
  case (Cons e es)
  then show ?case by (cases e) (simp_all add: elapsed_simps)
qed

section \<open>The sample states\<close>

lemmas main_handlers = run_main_def onPointerDown_main_def is_interactive_main_def
  focusOnMonitor_def closeBtn_click_main_def keydown_main_def animate_main_def
  controls_update_def on_load_main_def on_load_error_main_def buildProceduralDesk_def
  controls_start_main_def js_or_def gsap_to_def

lemmas part_handlers = run_part_def onPointerDown_part_def is_interactive_part_def
  moveToMonitor_def returnToOffice_def hideOverlay_def animate_part_def controls_update_def
  on_load_part_def on_load_error_part_def gsap_to_def gsap_from_y_def

lemmas sample_nodes = screen_plane_def monitor_stand_def monitor_screen_def target_desk_def
  procedural_screen_def
  wall_def

lemmas raw_tick = gsap_tick_def render_tween_def advance_def tween_of_def tween_progress_def
  tween_finished_def openOverlay_main_def openOverlay_part_def Let_def

lemma main_ready_eval:
  "main_ready =
     \<lparr>camera_position = WIDE_SHOT_POS_main, camera_lookAt = WIDE_SHOT_TARGET_main,
       controls_enabled = True, controls_target = WIDE_SHOT_TARGET_main,
       overlay_hidden = True, uiHint_shown = True, iframe_focus_calls = 0,
       monitorMesh = Some screen_plane, tweens = [], console = [], idleTime = 0, last_now = 0\<rparr>"
  by (simp add: main_ready_def init_main_def main_handlers sample_nodes)

lemma part_ready_eval:
  "part_ready =
     \<lparr>camera_position = WIDE_SHOT_POS_part, camera_lookAt = WIDE_SHOT_TARGET_part,
       controls_enabled = True, controls_target = WIDE_SHOT_TARGET_part,
       overlay_hidden = True, uiHint_shown = True, iframe_focus_calls = 0,
       monitorMesh = Some monitor_screen, tweens = [], console = [], idleTime = 0, last_now = 0\<rparr>"
  by (simp add: part_ready_def init_part_def part_handlers sample_nodes raw_tick
      WIDE_SHOT_POS_part_def)

lemma part_focused_eval:
  "part_focused =
     \<lparr>camera_position = SIT_POS, camera_lookAt = SIT_TARGET,
       controls_enabled = False, controls_target = SIT_TARGET,
       overlay_hidden = False, uiHint_shown = False, iframe_focus_calls = 1,
       monitorMesh = Some monitor_screen, tweens = [], console = [], idleTime = 0, last_now = 0\<rparr>"
  by (simp add: part_focused_def part_ready_eval part_handlers sample_nodes raw_tick)

lemma main_focused_eval:
  "main_focused =
     \<lparr>camera_position = SIT_POS, camera_lookAt = SIT_TARGET,
       controls_enabled = False, controls_target = WIDE_SHOT_TARGET_main,
       overlay_hidden = False, uiHint_shown = False, iframe_focus_calls = 1,
       monitorMesh = Some screen_plane, tweens = [], console = [], idleTime = 0, last_now = 0\<rparr>"
  by (simp add: main_focused_def main_ready_eval main_handlers sample_nodes raw_tick)

section \<open>Completed transitions\<close>

text \<open>
  A transition on its own. A fly-in started while no other tween is in the engine and run
  to its end by the engine's ticks and the frame callback leaves the camera at \<open>SIT_POS\<close>
  looking at \<open>SIT_TARGET\<close> (in \<^verbatim>\<open>part_000\<close> the controls' target is \<open>SIT_TARGET\<close>
  too) and the overlay shown; until the ticks add up to the duration the overlay is as it
  was before. A fly-out started while no other tween is in the engine (in \<^verbatim>\<open>main.js\<close>:
  with the controls' target at the wide target, where the module put it) and run to its end
  leaves the camera at the wide position looking at the wide target and the controls
  enabled; until the ticks add up to the duration the controls' flag is as it was before.
  Real arithmetic stands for floating point, so the poses are reached exactly. The
  durations are 1.2 and 1.0 seconds in \<^verbatim>\<open>main.js\<close> and 1.5 seconds in \<^verbatim>\<open>part_000\<close>.
\<close>

lemma completed_transition_pose:
  assumes "tweens s = []" and "list_all quiet es"
  shows
    "(monitorMesh s \<noteq> None \<longrightarrow>
       (let s' = run_main es (focusOnMonitor s)
        in if 1.2 \<le> elapsed es
           then camera_position s' = SIT_POS \<and> camera_lookAt s' = SIT_TARGET
                \<and> \<not> overlay_hidden s'
           else overlay_hidden s' = overlay_hidden s))
     \<and> (controls_target s = WIDE_SHOT_TARGET_main \<longrightarrow>
         (let s' = run_main es (closeBtn_click_main s)
          in if 1.0 \<le> elapsed es
             then camera_position s' = WIDE_SHOT_POS_main
                  \<and> camera_lookAt s' = WIDE_SHOT_TARGET_main \<and> controls_enabled s'
             else controls_enabled s' = controls_enabled s))
     \<and> (let s' = run_part es (moveToMonitor s)
        in if 1.5 \<le> elapsed es
           then camera_position s' = SIT_POS \<and> controls_target s' = SIT_TARGET
                \<and> camera_lookAt s' = SIT_TARGET \<and> \<not> overlay_hidden s'
           else overlay_hidden s' = overlay_hidden s)
     \<and> (let s' = run_part es (returnToOffice s)
        in if 1.5 \<le> elapsed es
           then camera_position s' = WIDE_SHOT_POS_part
                \<and> controls_target s' = WIDE_SHOT_TARGET_part
                \<and> camera_lookAt s' = WIDE_SHOT_TARGET_part \<and> controls_enabled s'
           else controls_enabled s' = controls_enabled s)"
proof -
  note ne = elapsed_pos_tick[of es]
  have a: "let s' = run_main es (focusOnMonitor s)
        in if 1.2 \<le> elapsed es
           then camera_position s' = SIT_POS \<and> camera_lookAt s' = SIT_TARGET
                \<and> \<not> overlay_hidden s'
           else overlay_hidden s' = overlay_hidden s"
    if "monitorMesh s \<noteq> None"
    using main_in_flight[OF assms(1) that assms(2)] ne
    by (simp add: main_in_inv_def Let_def lerp_1 ease_ratio_1 del: ease_ratio.simps)
  have b: "let s' = run_main es (closeBtn_click_main s)
          in if 1.0 \<le> elapsed es
             then camera_position s' = WIDE_SHOT_POS_main
                  \<and> camera_lookAt s' = WIDE_SHOT_TARGET_main \<and> controls_enabled s'
             else controls_enabled s' = controls_enabled s"
    if "controls_target s = WIDE_SHOT_TARGET_main"
    using main_out_flight[OF assms(1) that assms(2)] ne
    by (simp add: main_out_inv_def Let_def lerp_1 ease_ratio_1 del: ease_ratio.simps)
  have c: "let s' = run_part es (moveToMonitor s)
        in if 1.5 \<le> elapsed es
           then camera_position s' = SIT_POS \<and> controls_target s' = SIT_TARGET
                \<and> camera_lookAt s' = SIT_TARGET \<and> \<not> overlay_hidden s'
           else overlay_hidden s' = overlay_hidden s"
    using part_in_flight[OF assms] ne
    by (simp add: part_in_inv_def Let_def lerp_1 ease_ratio_1 del: ease_ratio.simps)
  have d: "let s' = run_part es (returnToOffice s)
        in if 1.5 \<le> elapsed es
           then camera_position s' = WIDE_SHOT_POS_part
                \<and> controls_target s' = WIDE_SHOT_TARGET_part
                \<and> camera_lookAt s' = WIDE_SHOT_TARGET_part \<and> controls_enabled s'
           else controls_enabled s' = controls_enabled s"
    using part_out_flight[OF assms] ne
    by (simp add: part_out_inv_def Let_def lerp_1 ease_ratio_1 del: ease_ratio.simps)
  from a b c d show ?thesis by blast
qed

text \<open>
  The fly-ins from the loaded states and the fly-outs from the focused states, run by ticks
  and frames.
\<close>

lemma completed_transition_pose_sample:
  "camera_position
       (run_main [GsapTick (1 / 2), AnimationFrame 500, GsapTick (7 / 10), AnimationFrame 1200]
          (focusOnMonitor main_ready)) = SIT_POS
   \<and> camera_lookAt
       (run_main [GsapTick (1 / 2), AnimationFrame 500, GsapTick (7 / 10), AnimationFrame 1200]
          (focusOnMonitor main_ready)) = SIT_TARGET
   \<and> \<not> overlay_hidden
       (run_main [GsapTick (1 / 2), AnimationFrame 500, GsapTick (7 / 10), AnimationFrame 1200]
          (focusOnMonitor main_ready))
   \<and> overlay_hidden
       (run_main [GsapTick (1 / 2), AnimationFrame 500, GsapTick (1 / 2)] (focusOnMonitor main_ready))
   \<and> camera_position main_focused = SIT_POS \<and> \<not> controls_enabled main_focused
   \<and> \<not> controls_enabled
       (run_main [GsapTick (1 / 2), AnimationFrame 500] (closeBtn_click_main main_focused))
   \<and> camera_position
       (run_main [GsapTick (1 / 2), AnimationFrame 500, GsapTick (1 / 2), AnimationFrame 1000]
          (closeBtn_click_main main_focused)) = WIDE_SHOT_POS_main
   \<and> camera_lookAt
       (run_main [GsapTick (1 / 2), AnimationFrame 500, GsapTick (1 / 2), AnimationFrame 1000]
          (closeBtn_click_main main_focused)) = WIDE_SHOT_TARGET_main
   \<and> controls_enabled
       (run_main [GsapTick (1 / 2), AnimationFrame 500, GsapTick (1 / 2), AnimationFrame 1000]
          (closeBtn_click_main main_focused))
   \<and> camera_position
       (run_part [GsapTick 1, AnimationFrame 1000, GsapTick (1 / 2)] (moveToMonitor part_ready))
       = SIT_POS
   \<and> controls_target
       (run_part [GsapTick 1, AnimationFrame 1000, GsapTick (1 / 2)] (moveToMonitor part_ready))
       = SIT_TARGET
   \<and> \<not> overlay_hidden
       (run_part [GsapTick 1, AnimationFrame 1000, GsapTick (1 / 2)] (moveToMonitor part_ready))
   \<and> camera_position part_focused = SIT_POS \<and> \<not> controls_enabled part_focused
   \<and> \<not> controls_enabled
       (run_part [GsapTick 1, AnimationFrame 1000] (returnToOffice part_focused))
   \<and> camera_position
       (run_part [GsapTick 1, AnimationFrame 1000, GsapTick (1 / 2)] (returnToOffice part_focused))
       = WIDE_SHOT_POS_part
   \<and> controls_target
       (run_part [GsapTick 1, AnimationFrame 1000, GsapTick (1 / 2)] (returnToOffice part_focused))
       = WIDE_SHOT_TARGET_part
   \<and> controls_enabled
       (run_part [GsapTick 1, AnimationFrame 1000, GsapTick (1 / 2)] (returnToOffice part_focused))"
proof -
  have m: "tweens main_ready = []" "monitorMesh main_ready \<noteq> None"
    and mf: "tweens main_focused = []" "controls_target main_focused = WIDE_SHOT_TARGET_main"
      "camera_position main_focused = SIT_POS" "\<not> controls_enabled main_focused"
    and p: "tweens part_ready = []"
    and pf: "tweens part_focused = []" "camera_position part_focused = SIT_POS"
      "\<not> controls_enabled part_focused"
    by (simp_all add: main_ready_eval main_focused_eval part_ready_eval part_focused_eval)
  have q: "list_all quiet [GsapTick (1 / 2), AnimationFrame 500, GsapTick (7 / 10), AnimationFrame 1200]"
    "list_all quiet [GsapTick (1 / 2), AnimationFrame 500, GsapTick (1 / 2)]"
    "list_all quiet [GsapTick (1 / 2), AnimationFrame 500]"
    "list_all quiet [GsapTick (1 / 2), AnimationFrame 500, GsapTick (1 / 2), AnimationFrame 1000]"
    "list_all quiet [GsapTick 1, AnimationFrame 1000, GsapTick (1 / 2)]"
    "list_all quiet [GsapTick 1, AnimationFrame 1000]"
    by simp_all
  have h: "overlay_hidden main_ready"
    by (simp add: main_ready_eval)
  from completed_transition_pose[OF m(1) q(1)] completed_transition_pose[OF m(1) q(2)]
    completed_transition_pose[OF mf(1) q(3)] completed_transition_pose[OF mf(1) q(4)]
    completed_transition_pose[OF p q(5)]
    completed_transition_pose[OF pf(1) q(6)] completed_transition_pose[OF pf(1) q(5)]
    m mf pf h
  show ?thesis
    by (simp add: Let_def elapsed_simps)
qed

text \<open>
  Claim C4 fails in \<^verbatim>\<open>part_000\<close>. The scene's load starts a two-second intro tween on
  the height of the camera and leaves picks enabled. A pick of the screen right after the
  load flies the camera in: after 1.5 seconds the fly-in has ended with the camera at
  \<open>SIT_POS\<close>, the controls' target at \<open>SIT_TARGET\<close> and the overlay shown, and the intro
  tween is still in the engine. Half a second later the intro tween has ended and has put
  the camera back at the height of the wide position: the view is focused, no tween is
  left, and the camera is not at \<open>SIT_POS\<close>. On the same events \<^verbatim>\<open>main.js\<close>, which has
  no intro tween, keeps the camera at \<open>SIT_POS\<close>.
\<close>

theorem part_intro_outlasts_fly_in:
  "view_state_of (run_part [LoadSuccess [monitor_screen, target_desk, wall]] init_part) = ORBITING
   \<and> view_state_of
       (run_part [LoadSuccess [monitor_screen, target_desk, wall], PointerDown [monitor_screen],
                  GsapTick 1.5] init_part) = FOCUSED
   \<and> camera_position
       (run_part [LoadSuccess [monitor_screen, target_desk, wall], PointerDown [monitor_screen],
                  GsapTick 1.5] init_part) = SIT_POS
   \<and> controls_target
       (run_part [LoadSuccess [monitor_screen, target_desk, wall], PointerDown [monitor_screen],
                  GsapTick 1.5] init_part) = SIT_TARGET
   \<and> map tw_props
       (tweens
         (run_part [LoadSuccess [monitor_screen, target_desk, wall], PointerDown [monitor_screen],
                    GsapTick 1.5] init_part)) = [[(AxisY, 50, 19.59)]]
   \<and> view_state_of
       (run_part [LoadSuccess [monitor_screen, target_desk, wall], PointerDown [monitor_screen],
                  GsapTick 1.5, GsapTick 0.5] init_part) = FOCUSED
   \<and> \<not> overlay_hidden
       (run_part [LoadSuccess [monitor_screen, target_desk, wall], PointerDown [monitor_screen],
                  GsapTick 1.5, GsapTick 0.5] init_part)
   \<and> tweens
       (run_part [LoadSuccess [monitor_screen, target_desk, wall], PointerDown [monitor_screen],
                  GsapTick 1.5, GsapTick 0.5] init_part) = []
   \<and> camera_position
       (run_part [LoadSuccess [monitor_screen, target_desk, wall], PointerDown [monitor_screen],
                  GsapTick 1.5, GsapTick 0.5] init_part) = Vec3 (- 3.4) 19.59 3.27
   \<and> SIT_POS = Vec3 (- 3.4) 6.4 3.27
   \<and> camera_position
       (run_main [LoadSuccess [screen_plane, monitor_stand, wall], PointerDown [screen_plane],
                  GsapTick 1.2, GsapTick 0.5] (init_main 0)) = SIT_POS"
  by (simp add: init_part_def init_main_def part_handlers main_handlers sample_nodes raw_tick
      view_state_of_def transitions_def WIDE_SHOT_POS_part_def WIDE_SHOT_POS_main_def
      SIT_POS_def SIT_TARGET_def)

section \<open>The two tracks of the fly-in\<close>




section \<open>Hit classification\<close>

lemma str_includes_sublist: "str_includes s sub \<longleftrightarrow> sublist sub s"
  by (induction s) (simp_all add: sublist_Cons_right)

lemma toLowerCase_samples:
  "toLowerCase ''Monitor_Stand'' = ''monitor_stand''"
  "toLowerCase ''Screen_Plane_clickable'' = ''screen_plane_clickable''"
  by code_simp+

text \<open>
  Claim C6 as stated fails. With \<^verbatim>\<open>monitorMesh\<close> resolved to the screen plane, \<^verbatim>\<open>main.js\<close> classifies another
  object as interactive by its name, and with \<^verbatim>\<open>monitorMesh\<close> unresolved it classifies
  nothing as interactive; \<^verbatim>\<open>part_000\<close> tests the names for \<^verbatim>\<open>Desk\<close> and
  \<^verbatim>\<open>Screen\<close>, with the case as written.
\<close>

theorem substring_test_not_a_fallback:
  "monitorMesh main_ready = Some screen_plane
   \<and> obj_ref monitor_stand \<noteq> obj_ref screen_plane
   \<and> obj_uuid monitor_stand \<noteq> obj_uuid screen_plane
   \<and> is_interactive_main (monitorMesh main_ready) monitor_stand
   \<and> onPointerDown_main [monitor_stand] main_ready = focusOnMonitor main_ready
   \<and> focusOnMonitor main_ready \<noteq> main_ready
   \<and> \<not> is_interactive_main None monitor_stand
   \<and> obj_ref target_desk \<noteq> obj_ref monitor_screen
   \<and> is_interactive_part (Some monitor_screen) target_desk
   \<and> \<not> is_interactive_part None procedural_screen
   \<and> \<not> is_interactive_part None monitor_stand"
  by (simp add: main_ready_eval sample_nodes onPointerDown_main_def is_interactive_main_def
      is_interactive_part_def toLowerCase_samples focusOnMonitor_def gsap_to_def)

text \<open>
  Claim C6, amended. The classification of the nearest hit is a function of the hit and of
  \<^verbatim>\<open>monitorMesh\<close>. In both files a hit that is identical to the resolved
  \<^verbatim>\<open>monitorMesh\<close> is interactive whatever its name. In \<^verbatim>\<open>main.js\<close> nothing is
  interactive while \<^verbatim>\<open>monitorMesh\<close> is unresolved, and once it is resolved a hit is
  interactive exactly when it is identical or uuid-equal to it or its lower-cased name
  contains \<^verbatim>\<open>monitor\<close> or \<^verbatim>\<open>screen\<close>: the name test belongs to the resolved case.
  In \<^verbatim>\<open>part_000\<close> a hit is interactive exactly when it is identical to the resolved
  \<^verbatim>\<open>monitorMesh\<close> or its name contains \<^verbatim>\<open>Desk\<close> or \<^verbatim>\<open>Screen\<close> (case as
  written), resolved or not. The handlers start the fly-in on exactly these hits.
\<close>

theorem hit_classification:
  "(obj_ref picked = obj_ref m \<longrightarrow>
      is_interactive_main (Some m) picked \<and> is_interactive_part (Some m) picked)
   \<and> \<not> is_interactive_main None picked
   \<and> (is_interactive_main (Some m) picked \<longleftrightarrow>
        obj_ref picked = obj_ref m \<or> obj_uuid picked = obj_uuid m
        \<or> sublist ''monitor'' (toLowerCase (obj_name picked))
        \<or> sublist ''screen'' (toLowerCase (obj_name picked)))
   \<and> (is_interactive_part mm picked \<longleftrightarrow>
        (\<exists>m'. mm = Some m' \<and> obj_ref picked = obj_ref m')
        \<or> sublist ''Desk'' (obj_name picked) \<or> sublist ''Screen'' (obj_name picked))
   \<and> onPointerDown_main (picked # rest) s =
        (if is_interactive_main (monitorMesh s) picked then focusOnMonitor s else s)
   \<and> onPointerDown_part (picked # rest) s =
        (if controls_enabled s \<and> is_interactive_part (monitorMesh s) picked
         then moveToMonitor s else s)"
  by (cases mm)
     (simp_all add: is_interactive_main_def is_interactive_part_def str_includes_sublist
        onPointerDown_main_def onPointerDown_part_def del: str_includes.simps)

theorem hit_classification_witness:
  "obj_ref screen_plane = obj_ref screen_plane
   \<and> is_interactive_main (Some screen_plane) screen_plane
   \<and> is_interactive_part (Some screen_plane) screen_plane
   \<and> \<not> is_interactive_main None screen_plane
   \<and> onPointerDown_main [screen_plane] main_ready = focusOnMonitor main_ready"
  using hit_classification[of screen_plane screen_plane None "[]" main_ready]
  by (simp add: main_ready_eval)

section \<open>The escape key\<close>

text \<open>
  Claim C8 as stated fails. \<^verbatim>\<open>part_000\<close> registers no listener for key presses: in its focused state the escape
  key changes nothing, while a click on the close button hides the overlay and starts the
  flight back.
\<close>

theorem part_ignores_escape:
  "view_state_of part_focused = FOCUSED
   \<and> step_part (KeyDown ''Escape'') part_focused = part_focused
   \<and> \<not> overlay_hidden (step_part (KeyDown ''Escape'') part_focused)
   \<and> tweens (step_part (KeyDown ''Escape'') part_focused) = []
   \<and> overlay_hidden (step_part CloseClick part_focused)
   \<and> length (tweens (step_part CloseClick part_focused)) = 2
   \<and> view_state_of (step_part CloseClick part_focused) = TRANSITIONING"
  by (simp add: part_focused_eval view_state_of_def transitions_def returnToOffice_def
      hideOverlay_def gsap_to_def tween_of_def)

text \<open>
  Claim C8, amended. In \<^verbatim>\<open>main.js\<close> an escape key press while the view is focused has
  exactly the effect of a click on the close button: the state after the one is the state
  after the other, the overlay is hidden, one tween of the camera position toward the wide
  position has been added whose completion re-enables the controls, and when no other tween
  is in the engine and the controls' target is the wide target, ticks and frames run it to
  the wide position with the controls enabled.
  \<^verbatim>\<open>part_000\<close> registers no key listener, so a key press has no effect there.
\<close>

theorem main_escape_same_as_close:
  assumes "view_state_of s = FOCUSED"
  shows
    "step_main (KeyDown ''Escape'') s = step_main CloseClick s
     \<and> overlay_hidden (step_main (KeyDown ''Escape'') s)
     \<and> tweens (step_main (KeyDown ''Escape'') s) =
         tweens s @
         [tween_of CameraPosition (camera_position s) WIDE_SHOT_POS_main 1.0 0 Power3InOut
            (Some (LookAtPoint WIDE_SHOT_TARGET_main)) (Some SetControlsEnabled)]
     \<and> view_state_of (step_main (KeyDown ''Escape'') s) = TRANSITIONING
     \<and> (tweens s = [] \<and> controls_target s = WIDE_SHOT_TARGET_main
          \<and> list_all quiet es \<and> 1.0 \<le> elapsed es \<longrightarrow>
          controls_enabled (run_main es (step_main (KeyDown ''Escape'') s))
          \<and> camera_position (run_main es (step_main (KeyDown ''Escape'') s))
              = WIDE_SHOT_POS_main)
     \<and> step_part (KeyDown key) s = s"
proof -
  from assms have shown: "\<not> overlay_hidden s"
    by (simp add: view_state_of_def split: if_splits)
  then have same: "step_main (KeyDown ''Escape'') s = closeBtn_click_main s"
    by (simp add: keydown_main_def)
  have fin: "controls_enabled (run_main es (closeBtn_click_main s))
      \<and> camera_position (run_main es (closeBtn_click_main s)) = WIDE_SHOT_POS_main"
    if "tweens s = []" "controls_target s = WIDE_SHOT_TARGET_main" "list_all quiet es"
      "1.0 \<le> elapsed es"
    using main_out_flight[OF that(1,2,3)] that(4)
    by (simp add: main_out_inv_def lerp_1 ease_ratio_1 del: ease_ratio.simps)
  show ?thesis
    unfolding same using fin
    by (simp add: closeBtn_click_main_def gsap_to_def view_state_of_def transitions_def
        tween_of_def)
qed

theorem main_escape_same_as_close_witness:
  "view_state_of main_focused = FOCUSED
   \<and> step_main (KeyDown ''Escape'') main_focused = step_main CloseClick main_focused
   \<and> overlay_hidden (step_main (KeyDown ''Escape'') main_focused)
   \<and> view_state_of (step_main (KeyDown ''Escape'') main_focused) = TRANSITIONING
   \<and> controls_enabled
       (run_main [GsapTick (1 / 2), GsapTick (1 / 2)] (step_main (KeyDown ''Escape'') main_focused))
   \<and> camera_position
       (run_main [GsapTick (1 / 2), GsapTick (1 / 2)] (step_main (KeyDown ''Escape'') main_focused))
       = WIDE_SHOT_POS_main"
proof -
  have f: "view_state_of main_focused = FOCUSED"
    by (simp add: main_focused_eval view_state_of_def transitions_def)
  have t: "tweens main_focused = []" "controls_target main_focused = WIDE_SHOT_TARGET_main"
    by (simp_all add: main_focused_eval)
  from main_escape_same_as_close[OF f, of "[GsapTick (1 / 2), GsapTick (1 / 2)]"] f t
  show ?thesis
    by (auto simp add: elapsed_simps)
qed

section \<open>What a tick leaves alone\<close>

lemma write_target_frame:
  "overlay_hidden (write_target tg v s) = overlay_hidden s"
  "controls_enabled (write_target tg v s) = controls_enabled s"
  "monitorMesh (write_target tg v s) = monitorMesh s"
  "idleTime (write_target tg v s) = idleTime s"
  "console (write_target tg v s) = console s"
  by (cases tg; simp)+

lemma run_onUpdate_frame:
  "overlay_hidden (run_onUpdate u s) = overlay_hidden s"
  "controls_enabled (run_onUpdate u s) = controls_enabled s"
  "monitorMesh (run_onUpdate u s) = monitorMesh s"
  "idleTime (run_onUpdate u s) = idleTime s"
  "console (run_onUpdate u s) = console s"
  by (induction u s rule: run_onUpdate.induct; simp)+

lemma run_onComplete_frame:
  assumes "oo = openOverlay_main \<or> oo = openOverlay_part"
  shows "monitorMesh (run_onComplete oo c s) = monitorMesh s"
    and "idleTime (run_onComplete oo c s) = idleTime s"
    and "console (run_onComplete oo c s) = console s"
    and "c \<noteq> Some CallOpenOverlay \<Longrightarrow> overlay_hidden (run_onComplete oo c s) = overlay_hidden s"
  using assms
  by (induction oo c s rule: run_onComplete.induct;
      auto simp add: openOverlay_main_def openOverlay_part_def)+

lemma render_tween_frame:
  assumes "oo = openOverlay_main \<or> oo = openOverlay_part"
  shows "monitorMesh (render_tween oo t s) = monitorMesh s"
    and "idleTime (render_tween oo t s) = idleTime s"
    and "console (render_tween oo t s) = console s"
    and "tw_onComplete t \<noteq> Some CallOpenOverlay \<Longrightarrow>
           overlay_hidden (render_tween oo t s) = overlay_hidden s"
  by (simp_all add: render_tween_def Let_def run_onComplete_frame[OF assms]
      run_onUpdate_frame write_target_frame)

lemma fold_render_frame:
  assumes "oo = openOverlay_main \<or> oo = openOverlay_part"
  shows "monitorMesh (fold (render_tween oo) ts s) = monitorMesh s"
    and "idleTime (fold (render_tween oo) ts s) = idleTime s"
    and "console (fold (render_tween oo) ts s) = console s"
    and "list_all (\<lambda>t. tw_onComplete t \<noteq> Some CallOpenOverlay) ts \<Longrightarrow>
           overlay_hidden (fold (render_tween oo) ts s) = overlay_hidden s"
  by (induction ts arbitrary: s; simp add: render_tween_frame[OF assms])+

lemma advance_onComplete: "tw_onComplete (advance dt t) = tw_onComplete t"
  by (simp add: advance_def)

lemma gsap_tick_frame:
  assumes "oo = openOverlay_main \<or> oo = openOverlay_part"
  shows "monitorMesh (gsap_tick oo dt s) = monitorMesh s"
    and "idleTime (gsap_tick oo dt s) = idleTime s"
    and "console (gsap_tick oo dt s) = console s"
    and "list_all (\<lambda>t. tw_onComplete t \<noteq> Some CallOpenOverlay) (tweens s) \<Longrightarrow>
           overlay_hidden (gsap_tick oo dt s) = overlay_hidden s"
    and "list_all (\<lambda>t. tw_onComplete t \<noteq> Some CallOpenOverlay) (tweens s) \<Longrightarrow>
           list_all (\<lambda>t. tw_onComplete t \<noteq> Some CallOpenOverlay) (tweens (gsap_tick oo dt s))"
  by (auto simp add: gsap_tick_def Let_def fold_render_frame[OF assms] list_all_iff
      advance_onComplete)

section \<open>An unresolved monitor\<close>

lemma unresolved_shut_step:
  assumes "unresolved_shut s" and "\<not> is_load e"
  shows "unresolved_shut (step_main e s)"
proof (cases e)
  case (PointerDown hits)
  with assms(1) show ?thesis
    by (simp add: unresolved_shut_def onPointerDown_main_def is_interactive_main_def
        split: list.splits)
next
  case CloseClick
  with assms(1) show ?thesis
    by (simp add: unresolved_shut_def closeBtn_click_main_def gsap_to_def tween_of_def)
next
  case (KeyDown key)
  with assms(1) show ?thesis
    by (simp add: unresolved_shut_def keydown_main_def)
next
  case ControlsStart
  with assms(1) show ?thesis
    by (simp add: unresolved_shut_def controls_start_main_def)
next
  case (GsapTick dt)
  with assms(1) show ?thesis
    by (simp add: unresolved_shut_def gsap_tick_frame)
next
  case (AnimationFrame now)
  with assms(1) show ?thesis
    by (simp add: unresolved_shut_def animate_main_def controls_update_def Let_def)
next
  case (LoadSuccess nodes)
  with assms(2) show ?thesis by simp
next
  case (LoadError err fresh)
  with assms(2) show ?thesis by simp
qed

lemma unresolved_shut_run:
  "unresolved_shut s \<Longrightarrow> \<forall>e\<in>set es. \<not> is_load e \<Longrightarrow> unresolved_shut (run_main es s)"
  unfolding run_main_def
  by (induction es arbitrary: s) (simp_all add: unresolved_shut_step)

lemma unresolved_shut_init: "unresolved_shut (init_main t0)"
  by (simp add: unresolved_shut_def init_main_def animate_main_def controls_update_def)

text \<open>
  Claim C10. In \<^verbatim>\<open>main.js\<close>, while \<^verbatim>\<open>monitorMesh\<close> is null \<^verbatim>\<open>focusOnMonitor\<close>
  returns the state it was given: camera pose, the controls' flag and the overlay are as
  they were. So from a state in which \<^verbatim>\<open>monitorMesh\<close> is null, the overlay is hidden
  and no fly-in is under way (the state the module starts in is one), no run of pointer,
  key, close-button, tick and frame events shows the overlay or resolves the monitor.
\<close>

theorem unresolved_monitor_never_opens:
  "(monitorMesh s = None \<longrightarrow> focusOnMonitor s = s)
   \<and> unresolved_shut (init_main t0)
   \<and> (unresolved_shut s \<and> (\<forall>e\<in>set es. \<not> is_load e) \<longrightarrow>
        overlay_hidden (run_main es s) \<and> monitorMesh (run_main es s) = None
        \<and> focusOnMonitor (run_main es s) = run_main es s)"
proof -
  have a: "monitorMesh s = None \<longrightarrow> focusOnMonitor s = s" for s
    by (simp add: focusOnMonitor_def)
  have "unresolved_shut (run_main es s)"
    if "unresolved_shut s" "\<forall>e\<in>set es. \<not> is_load e"
    using that by (rule unresolved_shut_run)
  with a[of "run_main es s"] a[of s] unresolved_shut_init[of t0] show ?thesis
    by (auto simp add: unresolved_shut_def)
qed

theorem unresolved_monitor_never_opens_witness:
  "monitorMesh (init_main 0) = None \<and> focusOnMonitor (init_main 0) = init_main 0
   \<and> unresolved_shut (init_main 0)
   \<and> overlay_hidden
       (run_main [PointerDown [wall], KeyDown ''Escape'', CloseClick, GsapTick 1, AnimationFrame 16]
          (init_main 0))
   \<and> monitorMesh
       (run_main [PointerDown [wall], KeyDown ''Escape'', CloseClick, GsapTick 1, AnimationFrame 16]
          (init_main 0)) = None"
proof -
  have n: "\<forall>e\<in>set [PointerDown [wall], KeyDown ''Escape'', CloseClick, GsapTick 1, AnimationFrame 16].
             \<not> is_load e"
    by simp
  have m: "monitorMesh (init_main 0) = None"
    by (simp add: init_main_def animate_main_def controls_update_def)
  from unresolved_monitor_never_opens[of "init_main 0" 0
      "[PointerDown [wall], KeyDown ''Escape'', CloseClick, GsapTick 1, AnimationFrame 16]"] n m
  show ?thesis by auto
qed

section \<open>Load failure\<close>



section \<open>Repeated picks\<close>

lemma main_flying_eval:
  "main_flying =
     \<lparr>camera_position = lerp WIDE_SHOT_POS_main SIT_POS (ease_ratio Power3InOut (5 / 12)),
       camera_lookAt = SIT_TARGET,
       controls_enabled = False, controls_target = WIDE_SHOT_TARGET_main,
       overlay_hidden = True, uiHint_shown = True, iframe_focus_calls = 0,
       monitorMesh = Some screen_plane,
       tweens = [tween_of CameraPosition WIDE_SHOT_POS_main SIT_POS 1.2 0.5 Power3InOut
                   (Some (LookAtPoint SIT_TARGET)) (Some CallOpenOverlay)],
       console = [], idleTime = 0, last_now = 0\<rparr>"
  by (simp add: main_flying_def main_ready_eval main_handlers sample_nodes tick_simps
      del: ease_ratio.simps)

text \<open>In \<^verbatim>\<open>part_000\<close> a pick is ignored while the controls are disabled.\<close>

lemma part_pick_guarded: "\<not> controls_enabled s \<Longrightarrow> onPointerDown_part hits s = s"
  by (simp add: onPointerDown_part_def)

lemma part_pick_disables:
  "onPointerDown_part hits s \<noteq> s \<Longrightarrow>
     \<not> controls_enabled (onPointerDown_part hits s)
     \<and> onPointerDown_part hits s = moveToMonitor s"
  by (auto simp add: onPointerDown_part_def moveToMonitor_def gsap_to_def split: list.splits if_splits)

text \<open>
  So of two picks in a row the second changes nothing once the first has started the
  fly-in, whatever it hits.
\<close>

lemma part_second_pick_ignored:
  "onPointerDown_part hits s \<noteq> s \<Longrightarrow>
     onPointerDown_part hits' (onPointerDown_part hits s) = onPointerDown_part hits s"
proof -
  assume "onPointerDown_part hits s \<noteq> s"
  then have "\<not> controls_enabled (onPointerDown_part hits s)"
    by (rule part_pick_disables[THEN conjunct1])
  then show ?thesis by (rule part_pick_guarded)
qed

text \<open>
  Claim C1 fails in \<^verbatim>\<open>main.js\<close>, which has no such guard. Two picks of the screen in a row leave two fly-in
  tweens in the engine, and both open the overlay when they end: \<^verbatim>\<open>focusOnMonitor\<close>
  is not a no-op during a transition. The same two picks in \<^verbatim>\<open>part_000\<close> start one
  transition and open the overlay once.
\<close>

theorem main_double_focus:
  "view_state_of (run_main [PointerDown [screen_plane]] main_ready) = TRANSITIONING
   \<and> focusOnMonitor (run_main [PointerDown [screen_plane]] main_ready)
       \<noteq> run_main [PointerDown [screen_plane]] main_ready
   \<and> length (transitions
        (run_main [PointerDown [screen_plane], PointerDown [screen_plane]] main_ready)) = 2
   \<and> iframe_focus_calls
        (run_main [PointerDown [screen_plane], PointerDown [screen_plane], GsapTick 1.2] main_ready) = 2
   \<and> length (transitions
        (run_part [PointerDown [monitor_screen], PointerDown [monitor_screen]] part_ready)) = 1
   \<and> iframe_focus_calls
        (run_part [PointerDown [monitor_screen], PointerDown [monitor_screen], GsapTick 1.5] part_ready) = 1"
  by (simp add: main_ready_eval part_ready_eval main_handlers part_handlers sample_nodes raw_tick
      view_state_of_def transitions_def)

section \<open>Picks outside the orbiting state\<close>

lemma part_pick_cases:
  "onPointerDown_part hits s =
     (if controls_enabled s \<and> hits \<noteq> [] \<and> is_interactive_part (monitorMesh s) (hd hits)
      then moveToMonitor s else s)"
  by (simp add: onPointerDown_part_def split: list.splits)

lemma main_pick_cases:
  "onPointerDown_main hits s =
     (if hits \<noteq> [] \<and> is_interactive_main (monitorMesh s) (hd hits)
      then focusOnMonitor s else s)"
  by (simp add: onPointerDown_main_def split: list.splits)

text \<open>
  Claim C2 fails in \<^verbatim>\<open>main.js\<close>, whose handler does not look at the controls' flag: in the focused state
  and half a second into the fly-in, with the controls disabled, a pick of the screen
  changes the state and starts another transition. In \<^verbatim>\<open>part_000\<close> the same pick in
  the focused state changes nothing.
\<close>

theorem main_pick_while_not_orbiting:
  "view_state_of main_focused = FOCUSED
   \<and> \<not> controls_enabled main_focused
   \<and> onPointerDown_main [screen_plane] main_focused \<noteq> main_focused
   \<and> view_state_of (onPointerDown_main [screen_plane] main_focused) = TRANSITIONING
   \<and> view_state_of main_flying = TRANSITIONING
   \<and> \<not> controls_enabled main_flying
   \<and> onPointerDown_main [screen_plane] main_flying \<noteq> main_flying
   \<and> length (transitions (onPointerDown_main [screen_plane] main_flying)) = 2
   \<and> view_state_of part_focused = FOCUSED
   \<and> onPointerDown_part [monitor_screen] part_focused = part_focused"
  by (simp add: main_focused_eval main_flying_eval part_focused_eval main_handlers part_handlers
      sample_nodes view_state_of_def transitions_def tween_of_def)

section \<open>The view invariant\<close>

lemma part_consistent_view:
  assumes "part_consistent s"
  shows "controls_enabled s \<longleftrightarrow> view_state_of s = ORBITING"
    and "\<not> overlay_hidden s \<longleftrightarrow> view_state_of s = FOCUSED"
  using assms
  by (auto simp add: part_consistent_def view_state_of_def split: list.splits)

lemma render_tween_part_flags:
  "controls_enabled (render_tween openOverlay_part t s) =
     (controls_enabled s \<or> tween_finished t \<and> tw_onComplete t = Some SetControlsEnabled)"
  "overlay_hidden (render_tween openOverlay_part t s) =
     (overlay_hidden s \<and> \<not> (tween_finished t \<and> tw_onComplete t = Some CallOpenOverlay))"
proof -
  let ?s2 = "run_onUpdate (tw_onUpdate t)
      (write_target (tw_target t)
        (apply_props (ease_ratio (tw_ease t) (tween_progress t)) (tw_props t)
          (read_target (tw_target t) s)) s)"
  have e: "controls_enabled ?s2 = controls_enabled s" and h: "overlay_hidden ?s2 = overlay_hidden s"
    by (simp_all add: run_onUpdate_frame write_target_frame)
  have c: "controls_enabled (run_onComplete openOverlay_part c x) =
      (controls_enabled x \<or> c = Some SetControlsEnabled)"
    and o: "overlay_hidden (run_onComplete openOverlay_part c x) =
      (overlay_hidden x \<and> c \<noteq> Some CallOpenOverlay)" for c x
    by (induction "openOverlay_part" c x rule: run_onComplete.induct;
        simp add: openOverlay_part_def)+
  show "controls_enabled (render_tween openOverlay_part t s) =
     (controls_enabled s \<or> tween_finished t \<and> tw_onComplete t = Some SetControlsEnabled)"
    using e by (simp add: render_tween_def Let_def c)
  show "overlay_hidden (render_tween openOverlay_part t s) =
     (overlay_hidden s \<and> \<not> (tween_finished t \<and> tw_onComplete t = Some CallOpenOverlay))"
    using h by (simp add: render_tween_def Let_def o)
qed

lemma fold_render_part_flags:
  "controls_enabled (fold (render_tween openOverlay_part) ts s) =
     (controls_enabled s \<or> (\<exists>t\<in>set ts. tween_finished t \<and> tw_onComplete t = Some SetControlsEnabled))"
  "overlay_hidden (fold (render_tween openOverlay_part) ts s) =
     (overlay_hidden s \<and> \<not> (\<exists>t\<in>set ts. tween_finished t \<and> tw_onComplete t = Some CallOpenOverlay))"
  by (induction ts arbitrary: s; auto simp add: render_tween_part_flags)+

lemma transitions_tick:
  "transitions (gsap_tick oo dt s) =
     filter (\<lambda>t. \<not> tween_finished t) (map (advance dt) (transitions s))"
proof -
  have "filter (\<lambda>t. tw_onComplete t \<noteq> None) (map (advance dt) ts) =
      map (advance dt) (filter (\<lambda>t. tw_onComplete t \<noteq> None) ts)" for ts
    by (induction ts) (simp_all add: advance_onComplete)
  then have "map (advance dt) (transitions s) =
      filter (\<lambda>t. tw_onComplete t \<noteq> None) (map (advance dt) (tweens s))"
    by (simp add: transitions_def)
  then show ?thesis
    by (simp add: transitions_def gsap_tick_def Let_def conj_commute)
qed

lemma part_consistent_tick:
  assumes "part_consistent s"
  shows "part_consistent (gsap_tick openOverlay_part dt s)"
proof -
  let ?s' = "gsap_tick openOverlay_part dt s"
  let ?ts = "map (advance dt) (tweens s)"
  have live: "list_all (\<lambda>t. \<not> tween_finished t) (tweens ?s')"
    by (simp add: gsap_tick_def Let_def list_all_iff)
  have en: "controls_enabled ?s' =
      (controls_enabled s \<or> (\<exists>t\<in>set ?ts. tween_finished t \<and> tw_onComplete t = Some SetControlsEnabled))"
    and hid: "overlay_hidden ?s' =
      (overlay_hidden s \<and> \<not> (\<exists>t\<in>set ?ts. tween_finished t \<and> tw_onComplete t = Some CallOpenOverlay))"
    by (simp_all add: gsap_tick_def Let_def fold_render_part_flags)
  show ?thesis
  proof (cases "transitions s")
    case Nil
    then have none: "tw_onComplete t = None" if "t \<in> set ?ts" for t
      using that by (auto simp add: transitions_def filter_empty_conv advance_onComplete)
    from none have "controls_enabled ?s' = controls_enabled s" "overlay_hidden ?s' = overlay_hidden s"
      unfolding en hid by auto
    moreover have "transitions ?s' = []"
      by (simp add: transitions_tick Nil)
    ultimately show ?thesis
      using assms live Nil by (simp add: part_consistent_def)
  next
    case (Cons t rest)
    with assms have rest: "rest = []" and flags: "\<not> controls_enabled s" "overlay_hidden s"
      by (auto simp add: part_consistent_def split: list.splits)
    have only: "x = advance dt t" if "x \<in> set ?ts" "tw_onComplete x = Some c" for x c
    proof -
      from that(1) obtain y where y: "y \<in> set (tweens s)" "x = advance dt y" by auto
      with that(2) have "y \<in> set (transitions s)"
        by (simp add: transitions_def advance_onComplete)
      with Cons rest y(2) show ?thesis by simp
    qed
    have "t \<in> set (transitions s)"
      by (simp add: Cons)
    then have mem: "advance dt t \<in> set ?ts" and cb: "tw_onComplete (advance dt t) \<noteq> None"
      by (simp_all add: transitions_def advance_onComplete)
    then obtain c where c: "tw_onComplete (advance dt t) = Some c" by auto
    have fires: "(\<exists>x\<in>set ?ts. tween_finished x \<and> tw_onComplete x = Some c') \<longleftrightarrow>
        tween_finished (advance dt t) \<and> c' = c" for c'
    proof
      assume "\<exists>x\<in>set ?ts. tween_finished x \<and> tw_onComplete x = Some c'"
      then obtain x where x: "x \<in> set ?ts" "tween_finished x" "tw_onComplete x = Some c'"
        by blast
      from only[OF x(1,3)] x(2,3) c show "tween_finished (advance dt t) \<and> c' = c" by simp
    next
      assume "tween_finished (advance dt t) \<and> c' = c"
      with mem c show "\<exists>x\<in>set ?ts. tween_finished x \<and> tw_onComplete x = Some c'" by blast
    qed
    have en': "controls_enabled ?s' = (tween_finished (advance dt t) \<and> c = SetControlsEnabled)"
      and hid': "overlay_hidden ?s' = (\<not> (tween_finished (advance dt t) \<and> c = CallOpenOverlay))"
      unfolding en hid fires using flags by auto
    have tr: "transitions ?s' = (if tween_finished (advance dt t) then [] else [advance dt t])"
      by (simp add: transitions_tick Cons rest)
    show ?thesis
      using live en' hid' tr by (cases c) (simp_all add: part_consistent_def)
  qed
qed

lemma part_consistent_fly:
  assumes "part_consistent s" and "transitions s = []"
    and "s' = gsap_to ControlsTarget b 1.5 e u (Some c) (gsap_to CameraPosition a 1.5 e' None None s0)"
    and "tweens s0 = tweens s" and "\<not> controls_enabled s0" and "overlay_hidden s0"
  shows "part_consistent s'"
  using assms
  by (simp add: part_consistent_def transitions_def gsap_to_def tween_of_def tween_finished_def)

lemma part_consistent_step:
  assumes "part_consistent s" and "deliverable e s"
  shows "part_consistent (step_part e s)"
proof (cases e)
  case (PointerDown hits)
  show ?thesis
  proof (cases "onPointerDown_part hits s = s")
    case True
    with assms(1) PointerDown show ?thesis by simp
  next
    case False
    then have mv: "onPointerDown_part hits s = moveToMonitor s"
      by (rule part_pick_disables[THEN conjunct2])
    from False have en: "controls_enabled s"
      using part_pick_guarded by blast
    with assms(1) have idle: "transitions s = []" and hid: "overlay_hidden s"
      by (auto simp add: part_consistent_def split: list.splits)
    have "part_consistent (moveToMonitor s)"
      by (rule part_consistent_fly[OF assms(1) idle, where ?s0.0 = "s\<lparr>controls_enabled := False\<rparr>"])
         (simp_all add: moveToMonitor_def hid)
    with mv PointerDown show ?thesis by simp
  qed
next
  case CloseClick
  with assms(2) have shown: "\<not> overlay_hidden s" by simp
  with assms(1) have idle: "transitions s = []" and dis: "\<not> controls_enabled s"
    by (auto simp add: part_consistent_def split: list.splits)
  have "part_consistent (returnToOffice s)"
    by (rule part_consistent_fly[OF assms(1) idle, where ?s0.0 = "hideOverlay s"])
       (simp_all add: returnToOffice_def hideOverlay_def dis)
  with CloseClick show ?thesis by simp
next
  case (KeyDown key)
  with assms(1) show ?thesis by simp
next
  case ControlsStart
  with assms(1) show ?thesis by simp
next
  case (GsapTick dt)
  with assms(1) show ?thesis by (simp add: part_consistent_tick)
next
  case (AnimationFrame now)
  with assms(1) show ?thesis
    by (simp add: part_consistent_def transitions_def animate_part_def controls_update_def
        split: list.splits)
next
  case (LoadSuccess nodes)
  with assms(1) show ?thesis
    by (simp add: part_consistent_def transitions_def on_load_part_def gsap_from_y_def
        tween_finished_def Let_def split: prod.splits list.splits)
next
  case (LoadError err fresh)
  with assms(1) show ?thesis
    by (simp add: part_consistent_def transitions_def on_load_error_part_def
        split: list.splits)
qed

lemma part_consistent_init: "part_consistent init_part"
  by (simp add: part_consistent_def transitions_def init_part_def animate_part_def
      controls_update_def)

text \<open>
  In \<^verbatim>\<open>part_000\<close> every state reached from the initial one by deliverable events has
  the controls enabled exactly in the orbiting state and the overlay shown exactly in the
  focused state.
\<close>

lemma part_view_invariant:
  assumes "deliverable_part es init_part"
  shows "(controls_enabled (run_part es init_part) \<longleftrightarrow> view_state_of (run_part es init_part) = ORBITING)
     \<and> (\<not> overlay_hidden (run_part es init_part) \<longleftrightarrow> view_state_of (run_part es init_part) = FOCUSED)"
proof -
  have "part_consistent (fold step_part es s)" if "part_consistent s" "deliverable_part es s" for s
    using that by (induction es arbitrary: s) (simp_all add: part_consistent_step)
  from this[OF part_consistent_init assms] part_consistent_view show ?thesis
    by (simp add: run_part_def)
qed

text \<open>In \<^verbatim>\<open>part_000\<close> at most one transition is ever in flight.\<close>

lemma part_one_transition:
  assumes "deliverable_part es init_part"
  shows "length (transitions (run_part es init_part)) \<le> 1"
proof -
  have "part_consistent (fold step_part es s)" if "part_consistent s" "deliverable_part es s" for s
    using that by (induction es arbitrary: s) (simp_all add: part_consistent_step)
  from this[OF part_consistent_init assms] show ?thesis
    by (auto simp add: run_part_def part_consistent_def split: list.splits)
qed

text \<open>
  Claim C3 fails in \<^verbatim>\<open>main.js\<close>, which breaks both equivalences. A pick of the screen, a second pick half a
  second later, and 0.7 seconds more: the first fly-in has ended and shown the overlay while
  the second is in flight. An escape key press and a further second: the flight back has
  ended and enabled the controls after the second fly-in ended and showed the overlay, so
  the overlay is shown with the controls enabled and the camera at the wide position.
\<close>

theorem main_view_invariant_broken:
  "\<not> overlay_hidden
      (run_main [PointerDown [screen_plane], GsapTick 0.5, PointerDown [screen_plane], GsapTick 0.7]
         main_ready)
   \<and> view_state_of
      (run_main [PointerDown [screen_plane], GsapTick 0.5, PointerDown [screen_plane], GsapTick 0.7]
         main_ready) = TRANSITIONING
   \<and> view_state_of
      (run_main [PointerDown [screen_plane], GsapTick 0.5, PointerDown [screen_plane], GsapTick 0.7,
                 KeyDown ''Escape'', GsapTick 0.5, GsapTick 0.5] main_ready) = FOCUSED
   \<and> controls_enabled
      (run_main [PointerDown [screen_plane], GsapTick 0.5, PointerDown [screen_plane], GsapTick 0.7,
                 KeyDown ''Escape'', GsapTick 0.5, GsapTick 0.5] main_ready)
   \<and> camera_position
      (run_main [PointerDown [screen_plane], GsapTick 0.5, PointerDown [screen_plane], GsapTick 0.7,
                 KeyDown ''Escape'', GsapTick 0.5, GsapTick 0.5] main_ready) = WIDE_SHOT_POS_main"
  by (simp add: main_ready_eval main_handlers sample_nodes raw_tick view_state_of_def
      transitions_def)

section \<open>The idle orbit\<close>

text \<open>
  Called with more than 1.5 seconds of idle time, \<^verbatim>\<open>updateControlsIdle\<close> puts the camera
  on the circle of radius 6 at the angle given by the clock and turns it to the point
  (0, 1, 0); the listener on the controls resets the idle time.
\<close>

lemma updateControlsIdle_orbits:
  assumes "controls_enabled s" and "1.5 < idleTime s + dt"
  shows "camera_position (updateControlsIdle now dt s) =
           Vec3 (sin (now * 0.00008) * 6) (vy (camera_position s)) (cos (now * 0.00008) * 6)"
    and "camera_lookAt (updateControlsIdle now dt s) = Vec3 0 1 0"
    and "idleTime (updateControlsIdle now dt s) = idleTime s + dt"
  using assms by (simp_all add: updateControlsIdle_def Let_def)

lemma updateControlsIdle_waits:
  assumes "idleTime s + dt \<le> 1.5 \<or> \<not> controls_enabled s"
  shows "camera_position (updateControlsIdle now dt s) = camera_position s"
  using assms by (auto simp add: updateControlsIdle_def Let_def)

lemma controls_start_resets: "idleTime (step_main ControlsStart s) = 0"
  by (simp add: controls_start_main_def)

text \<open>
  The frame callback of \<^verbatim>\<open>main.js\<close> computes the time step and does not hand it on:
  it leaves the idle time and the camera position as they are.
\<close>

lemma animate_main_frame:
  "idleTime (animate_main now s) = idleTime s"
  "camera_position (animate_main now s) = camera_position s"
  by (simp_all add: animate_main_def controls_update_def Let_def)

lemma step_main_idleTime: "idleTime s = 0 \<Longrightarrow> idleTime (step_main e s) = 0"
  by (cases e)
     (simp_all add: onPointerDown_main_def focusOnMonitor_def closeBtn_click_main_def
        keydown_main_def controls_start_main_def gsap_tick_frame animate_main_frame
        on_load_main_def on_load_error_main_def buildProceduralDesk_def gsap_to_def Let_def
        split: list.splits option.splits)

text \<open>No run of events of \<^verbatim>\<open>main.js\<close> ever makes the idle time positive.\<close>

lemma main_idleTime_stays_zero: "idleTime (run_main es (init_main t0)) = 0"
proof -
  have "idleTime (fold step_main es s) = 0" if "idleTime s = 0" for s
    using that by (induction es arbitrary: s) (simp_all add: step_main_idleTime)
  moreover have "idleTime (init_main t0) = 0"
    by (simp add: init_main_def animate_main_frame controls_update_def)
  ultimately show ?thesis by (simp add: run_main_def)
qed

text \<open>
  Claim C7 fails in \<^verbatim>\<open>main.js\<close>. Three frames, one second apart, with no input: the controls are enabled, the idle time
  is still zero and the camera is where it was, while a call of \<^verbatim>\<open>updateControlsIdle\<close>
  with the two seconds elapsed at the third frame would have moved it onto the circle.
\<close>

theorem main_idle_orbit_never_runs:
  "controls_enabled
      (run_main [AnimationFrame 1000, AnimationFrame 2000, AnimationFrame 3000] (init_main 0))
   \<and> idleTime
      (run_main [AnimationFrame 1000, AnimationFrame 2000, AnimationFrame 3000] (init_main 0)) = 0
   \<and> camera_position
      (run_main [AnimationFrame 1000, AnimationFrame 2000, AnimationFrame 3000] (init_main 0))
      = WIDE_SHOT_POS_main
   \<and> last_now
      (run_main [AnimationFrame 1000, AnimationFrame 2000, AnimationFrame 3000] (init_main 0))
      = 3000
   \<and> idleTime (updateControlsIdle 3000 2 (init_main 0)) = 2
   \<and> camera_position (updateControlsIdle 3000 2 (init_main 0))
      = Vec3 (sin (6 / 25) * 6) 23 (cos (6 / 25) * 6)
   \<and> camera_lookAt (updateControlsIdle 3000 2 (init_main 0)) = Vec3 0 1 0"
  by (simp add: run_main_def init_main_def animate_main_def controls_update_def
      updateControlsIdle_def Let_def WIDE_SHOT_POS_main_def)

end
